theory Spec2Isabelle
  imports Complex_Main "HOL-Library.Sublist" "HOL-Library.AList"
begin

section \<open>Data model of server.js\<close>

text \<open>
  The product catalogue of \<^verbatim>\<open>server.js\<close> is a module-level array of plain objects,
  read and written by seven route handlers behind two middleware functions.
  JavaScript strings are modelled as \<^typ>\<open>string\<close>: a \<^typ>\<open>char\<close> is a code unit
  below 256, that is a character of the range U+0000 to U+00FF, and strings with other
  characters are outside the type;
  JavaScript numbers are modelled exactly, as rationals (prices) and integers
  (the results of \<^verbatim>\<open>parseInt\<close>), so rounding of doubles, NaN and the infinities are
  outside the model. The library functions that the handlers call (\<^verbatim>\<open>trim\<close>,
  \<^verbatim>\<open>toLowerCase\<close>, \<^verbatim>\<open>includes\<close>, \<^verbatim>\<open>parseInt\<close>, \<^verbatim>\<open>slice\<close>, \<^verbatim>\<open>findIndex\<close>) are
  written out from their ECMAScript definitions; the result of \<^verbatim>\<open>uuidv4()\<close> is a
  parameter.
\<close>

record product =
  id_p :: string
  name :: string
  description :: string
  price :: rat
  category :: string
  inStock :: bool

text \<open>The sample in-memory database, lines 16--57.\<close>

definition products :: "product list" where
  "products =
    [\<lparr>id_p = ''1'', name = ''Laptop'',
      description = ''High-performance laptop with 16GB RAM'',
      price = 1200, category = ''electronics'', inStock = True\<rparr>,
     \<lparr>id_p = ''2'', name = ''Smartphone'',
      description = ''Latest model with 128GB storage'',
      price = 800, category = ''electronics'', inStock = True\<rparr>,
     \<lparr>id_p = ''3'', name = ''Coffee Maker'',
      description = ''Programmable coffee maker with timer'',
      price = 50, category = ''kitchen'', inStock = False\<rparr>,
     \<lparr>id_p = ''4'', name = ''Wireless Headphones'',
      description = ''Noise-cancelling wireless headphones'',
      price = 200, category = ''electronics'', inStock = True\<rparr>,
     \<lparr>id_p = ''5'', name = ''Desk Chair'',
      description = ''Ergonomic office chair with lumbar support'',
      price = 300, category = ''furniture'', inStock = True\<rparr>]"

text \<open>
  A value of a parsed JSON request body. A missing property reads as
  \<^verbatim>\<open>undefined\<close>.
\<close>

datatype jval =
    JUndefined
  | JNull
  | JBool bool
  | JNum rat
  | JStr string
  | JArr "jval list"
  | JObj "(string \<times> jval) list"

text \<open>The operand of \<^verbatim>\<open>!v\<close>: the falsy values are undefined, null, false, 0 and the empty string.\<close>

fun truthy :: "jval \<Rightarrow> bool" where
  "truthy JUndefined = False"
| "truthy JNull = False"
| "truthy (JBool b) = b"
| "truthy (JNum n) = (n \<noteq> 0)"
| "truthy (JStr s) = (s \<noteq> [])"
| "truthy (JArr _) = True"
| "truthy (JObj _) = True"

text \<open>
  The five properties that the handlers destructure from \<^verbatim>\<open>req.body\<close>, the object
  that \<^verbatim>\<open>bodyParser.json()\<close> leaves there; other properties are never read. When the
  request carries no JSON body, \<^verbatim>\<open>req.body\<close> is \<^verbatim>\<open>undefined\<close>: a request holds an
  optional body, and \<^verbatim>\<open>None\<close> is that case.
\<close>

record body =
  body_name :: jval
  body_description :: jval
  body_price :: jval
  body_category :: jval
  body_inStock :: jval

text \<open>
  The query parameters that the handlers read. A parameter is absent
  (\<^verbatim>\<open>undefined\<close>) or carries the string given in the URL, as for a key that the URL
  gives at most once and without brackets.
\<close>

record query =
  query_category :: "string option"
  query_inStock :: "string option"
  query_page :: "string option"
  query_limit :: "string option"
  query_q :: "string option"

text \<open>The custom error classes, lines 59--82, and any other thrown value.\<close>

datatype error =
    NotFoundError string
  | ValidationError string
  | AuthenticationError string
  | OtherError

record pagination =
  currentPage :: int
  totalPages :: int
  totalProducts :: nat
  hasNextPage :: bool
  hasPrevPage :: bool

text \<open>
  A value stored under a key of \<^verbatim>\<open>stats.categories\<close>: a count, or the string that
  \<^verbatim>\<open>+\<close> produces when its left operand is not a number.
\<close>

datatype catval = CNum nat | CStr string

record stats =
  stats_totalProducts :: nat
  stats_inStock :: nat
  stats_outOfStock :: nat
  stats_categories :: "(string \<times> catval) list"
  stats_averagePrice :: rat
  stats_min :: rat
  stats_max :: rat

datatype payload =
    ErrorJson string string nat
  | ProductsJson "product list" pagination
  | SearchJson string "product list" nat
  | StatsJson stats
  | ProductJson product
  | MessageJson string product

record response =
  status :: nat
  json :: payload

section \<open>String primitives used by the handlers\<close>

text \<open>
  White space as \<^verbatim>\<open>String.prototype.trim\<close> and \<^verbatim>\<open>parseInt\<close> see it: the white space and
  line terminator characters of ECMAScript. Below U+0100 these are tab, line feed,
  vertical tab, form feed, carriage return, space and the no-break space U+00A0.
\<close>

definition is_ws :: "char \<Rightarrow> bool" where
  "is_ws c =
     (c \<in> {CHR '' '', CHR 0x09, CHR 0x0A, CHR 0x0B, CHR 0x0C, CHR 0x0D, CHR 0xA0})"

definition trim :: "string \<Rightarrow> string" where
  "trim s = rev (dropWhile is_ws (rev (dropWhile is_ws s)))"

text \<open>
  \<^verbatim>\<open>String.prototype.toLowerCase\<close>. Below U+0100 the characters with a lower-case mapping
  are A to Z and U+00C0 to U+00DE without the multiplication sign U+00D7; each maps to
  the character 32 positions further, and no mapping depends on the context.
\<close>

definition lower_char :: "char \<Rightarrow> char" where
  "lower_char c =
     (let n = (of_char c :: nat)
      in if (65 \<le> n \<and> n \<le> 90) \<or> (192 \<le> n \<and> n \<le> 222 \<and> n \<noteq> 215)
         then char_of (n + 32) else c)"

definition toLowerCase :: "string \<Rightarrow> string" where
  "toLowerCase s = map lower_char s"

text \<open>\<^verbatim>\<open>s.includes(t)\<close>: \<^verbatim>\<open>t\<close> occurs in \<^verbatim>\<open>s\<close> as a contiguous run.\<close>

fun includes_str :: "string \<Rightarrow> string \<Rightarrow> bool" where
  "includes_str [] t = (t = [])"
| "includes_str (c # s) t = (prefix t (c # s) \<or> includes_str s t)"

text \<open>
  \<^verbatim>\<open>parseInt\<close> without a radix: leading white space is skipped, one sign is read, a
  \<^verbatim>\<open>0x\<close> prefix selects base 16, and the longest run of digits is converted;
  \<^verbatim>\<open>None\<close> is NaN.
\<close>

definition digit_val :: "char \<Rightarrow> nat option" where
  "digit_val c =
     (let n = (of_char c :: nat)
      in if 48 \<le> n \<and> n \<le> 57 then Some (n - 48)
         else if 97 \<le> n \<and> n \<le> 122 then Some (n - 87)
         else if 65 \<le> n \<and> n \<le> 90 then Some (n - 55)
         else None)"

definition is_digit :: "nat \<Rightarrow> char \<Rightarrow> bool" where
  "is_digit r c = (case digit_val c of None \<Rightarrow> False | Some d \<Rightarrow> d < r)"

definition digits_value :: "nat \<Rightarrow> string \<Rightarrow> nat" where
  "digits_value r ds = foldl (\<lambda>acc c. case digit_val c of None \<Rightarrow> acc | Some d \<Rightarrow> acc * r + d) 0 ds"

definition parse_digits :: "nat \<Rightarrow> string \<Rightarrow> nat option" where
  "parse_digits r s =
     (let z = takeWhile (is_digit r) s
      in if z = [] then None else Some (digits_value r z))"

definition parseInt :: "string \<Rightarrow> int option" where
  "parseInt str =
     (let s = dropWhile is_ws str;
          neg = (s \<noteq> [] \<and> hd s = CHR ''-'');
          s1 = (if s \<noteq> [] \<and> (hd s = CHR ''+'' \<or> hd s = CHR ''-'') then tl s else s);
          hex = (take 2 s1 = ''0x'' \<or> take 2 s1 = ''0X'');
          m = (if hex then parse_digits 16 (drop 2 s1) else parse_digits 10 s1)
      in case m of
           None \<Rightarrow> None
         | Some n \<Rightarrow> Some (if neg then - int n else int n))"

text \<open>\<^verbatim>\<open>parseInt(req.query.x) || d\<close>: NaN and 0 are falsy and give the default.\<close>

definition parseInt_or :: "string option \<Rightarrow> int \<Rightarrow> int" where
  "parseInt_or v d =
     (case v of
        None \<Rightarrow> d
      | Some s \<Rightarrow> (case parseInt s of None \<Rightarrow> d | Some n \<Rightarrow> if n = 0 then d else n))"

text \<open>
  \<^verbatim>\<open>Array.prototype.slice(start, end)\<close>: a negative bound counts from the end of the array,
  and both bounds are clamped to the array.
\<close>

definition slice :: "'a list \<Rightarrow> int \<Rightarrow> int \<Rightarrow> 'a list" where
  "slice xs start end' =
     (let len = int (length xs);
          k = (if start < 0 then max (len + start) 0 else min start len);
          final = (if end' < 0 then max (len + end') 0 else min end' len)
      in take (nat (final - k)) (drop (nat k) xs))"

text \<open>\<^verbatim>\<open>Array.prototype.findIndex\<close>; \<^verbatim>\<open>None\<close> is the result -1.\<close>

fun findIndex :: "('a \<Rightarrow> bool) \<Rightarrow> 'a list \<Rightarrow> nat option" where
  "findIndex P [] = None"
| "findIndex P (x # xs) =
     (if P x then Some 0 else map_option Suc (findIndex P xs))"

section \<open>Middleware\<close>

text \<open>
  \<^verbatim>\<open>authMiddleware\<close>, lines 94--107. The argument is \<^verbatim>\<open>req.headers["x-api-key"]\<close>,
  absent or a string; \<^verbatim>\<open>Inr ()\<close> is the call \<^verbatim>\<open>next()\<close>, \<^verbatim>\<open>Inl e\<close> the call \<^verbatim>\<open>next(e)\<close>.
\<close>

definition api_key :: string where
  "api_key = ''demo-api-key-123''"

definition auth_message :: string where
  "auth_message = ''Invalid or missing API key. Please provide a valid x-api-key header.''"

definition authMiddleware :: "string option \<Rightarrow> error + unit" where
  "authMiddleware apiKey =
     (if (case apiKey of None \<Rightarrow> True | Some k \<Rightarrow> k = []) \<or> apiKey \<noteq> Some api_key
      then Inl (AuthenticationError auth_message)
      else Inr ())"

text \<open>
  \<^verbatim>\<open>validateProduct\<close>, lines 110--154. Its first statement destructures \<^verbatim>\<open>req.body\<close>,
  which throws a \<^verbatim>\<open>TypeError\<close> on \<^verbatim>\<open>undefined\<close>; the router passes a value thrown by a
  middleware function on to \<^verbatim>\<open>errorHandler\<close>.
\<close>

fun typeof :: "jval \<Rightarrow> string" where
  "typeof JUndefined = ''undefined''"
| "typeof JNull = ''object''"
| "typeof (JBool _) = ''boolean''"
| "typeof (JNum _) = ''number''"
| "typeof (JStr _) = ''string''"
| "typeof (JArr _) = ''object''"
| "typeof (JObj _) = ''object''"

text \<open>
  The test \<^verbatim>\<open>!v || typeof v !== "string" || v.trim().length === 0\<close>; the third disjunct
  is only evaluated on a string.
\<close>

definition not_nonempty_string :: "jval \<Rightarrow> bool" where
  "not_nonempty_string v =
     (\<not> truthy v \<or> typeof v \<noteq> ''string'' \<or>
      (case v of JStr s \<Rightarrow> length (trim s) = 0 | _ \<Rightarrow> False))"

text \<open>The test \<^verbatim>\<open>typeof price !== "number" || price < 0\<close>.\<close>

definition not_price :: "jval \<Rightarrow> bool" where
  "not_price v =
     (typeof v \<noteq> ''number'' \<or> (case v of JNum n \<Rightarrow> n < 0 | _ \<Rightarrow> False))"

definition name_message :: string where
  "name_message = ''Name is required and must be a non-empty string''"

definition description_message :: string where
  "description_message = ''Description is required and must be a non-empty string''"

definition price_message :: string where
  "price_message = ''Price is required and must be a positive number''"

definition category_message :: string where
  "category_message = ''Category is required and must be a non-empty string''"

definition inStock_message :: string where
  "inStock_message = ''inStock is required and must be a boolean''"

definition validateProduct :: "body option \<Rightarrow> error + unit" where
  "validateProduct rb =
     (case rb of
        None \<Rightarrow> Inl OtherError
      | Some b \<Rightarrow>
          if not_nonempty_string (body_name b) then Inl (ValidationError name_message)
          else if not_nonempty_string (body_description b)
            then Inl (ValidationError description_message)
          else if not_price (body_price b) then Inl (ValidationError price_message)
          else if not_nonempty_string (body_category b)
            then Inl (ValidationError category_message)
          else if typeof (body_inStock b) \<noteq> ''boolean''
            then Inl (ValidationError inStock_message)
          else Inr ())"

text \<open>\<^verbatim>\<open>errorHandler\<close>, lines 157--190.\<close>

fun errorHandler :: "error \<Rightarrow> response" where
  "errorHandler (NotFoundError m) =
     \<lparr>status = 404, json = ErrorJson ''Not Found'' m 404\<rparr>"
| "errorHandler (ValidationError m) =
     \<lparr>status = 400, json = ErrorJson ''Validation Error'' m 400\<rparr>"
| "errorHandler (AuthenticationError m) =
     \<lparr>status = 401, json = ErrorJson ''Authentication Error'' m 401\<rparr>"
| "errorHandler OtherError =
     \<lparr>status = 500, json = ErrorJson ''Internal Server Error'' ''Something went wrong!'' 500\<rparr>"

text \<open>\<^verbatim>\<open>res.json(v)\<close> answers with status 200, \<^verbatim>\<open>res.status(c).json(v)\<close> with \<^verbatim>\<open>c\<close>.\<close>

definition res_json :: "payload \<Rightarrow> response" where
  "res_json v = \<lparr>status = 200, json = v\<rparr>"

definition respond :: "error + response \<Rightarrow> response" where
  "respond r = (case r of Inl e \<Rightarrow> errorHandler e | Inr v \<Rightarrow> v)"

section \<open>Route handlers\<close>

text \<open>\<^verbatim>\<open>GET /api/products\<close>: the two filters, lines 216--232.\<close>

definition filter_category :: "string option \<Rightarrow> product list \<Rightarrow> product list" where
  "filter_category c ps =
     (case c of
        None \<Rightarrow> ps
      | Some v \<Rightarrow>
          if v = [] then ps
          else filter (\<lambda>product. toLowerCase (category product) = toLowerCase v) ps)"

definition filter_inStock :: "string option \<Rightarrow> product list \<Rightarrow> product list" where
  "filter_inStock i ps =
     (case i of
        None \<Rightarrow> ps
      | Some v \<Rightarrow> filter (\<lambda>product. inStock product = (v = ''true'')) ps)"

definition filteredProducts :: "product list \<Rightarrow> query \<Rightarrow> product list" where
  "filteredProducts ps qu = filter_inStock (query_inStock qu) (filter_category (query_category qu) ps)"

text \<open>Pagination, lines 234--250.\<close>

definition page_of :: "query \<Rightarrow> int" where
  "page_of qu = parseInt_or (query_page qu) 1"

definition limit_of :: "query \<Rightarrow> int" where
  "limit_of qu = parseInt_or (query_limit qu) 10"

definition startIndex :: "query \<Rightarrow> int" where
  "startIndex qu = (page_of qu - 1) * limit_of qu"

definition endIndex :: "query \<Rightarrow> int" where
  "endIndex qu = page_of qu * limit_of qu"

definition paginatedProducts :: "product list \<Rightarrow> query \<Rightarrow> product list" where
  "paginatedProducts ps qu = slice (filteredProducts ps qu) (startIndex qu) (endIndex qu)"

definition get_products :: "product list \<Rightarrow> query \<Rightarrow> response" where
  "get_products ps qu =
     res_json (ProductsJson (paginatedProducts ps qu)
       \<lparr>currentPage = page_of qu,
        totalPages = \<lceil>rat_of_nat (length (filteredProducts ps qu)) / rat_of_int (limit_of qu)\<rceil>,
        totalProducts = length (filteredProducts ps qu),
        hasNextPage = (endIndex qu < int (length (filteredProducts ps qu))),
        hasPrevPage = (page_of qu > 1)\<rparr>)"

text \<open>\<^verbatim>\<open>GET /api/products/search\<close>, lines 260--282.\<close>

definition search_message :: string where
  "search_message = ''Search query parameter '' @ [CHR 0x22] @ ''q'' @ [CHR 0x22] @ '' is required''"

definition searchResults :: "product list \<Rightarrow> string \<Rightarrow> product list" where
  "searchResults ps qs =
     filter (\<lambda>product.
         includes_str (toLowerCase (name product)) (toLowerCase qs) \<or>
         includes_str (toLowerCase (description product)) (toLowerCase qs)) ps"

definition search_products :: "product list \<Rightarrow> query \<Rightarrow> error + response" where
  "search_products ps qu =
     (case query_q qu of
        None \<Rightarrow> Inl (ValidationError search_message)
      | Some qs \<Rightarrow>
          if qs = [] then Inl (ValidationError search_message)
          else Inr (res_json (SearchJson qs (searchResults ps qs) (length (searchResults ps qs)))))"

text \<open>
  \<^verbatim>\<open>GET /api/products/stats\<close>, lines 285--318. \<^verbatim>\<open>stats.categories\<close> starts as the object
  literal \<^verbatim>\<open>{}\<close>, so reading a key that is not an own property finds the members that
  every object inherits from \<^verbatim>\<open>Object.prototype\<close>. The table gives, for each inherited
  member, the string that \<^verbatim>\<open>+\<close> converts it to.
\<close>

definition native_function :: "string \<Rightarrow> string" where
  "native_function f = ''function '' @ f @ ''() { [native code] }''"

definition object_prototype :: "(string \<times> string) list" where
  "object_prototype =
     [(''constructor'', native_function ''Object''),
      (''__defineGetter__'', native_function ''__defineGetter__''),
      (''__defineSetter__'', native_function ''__defineSetter__''),
      (''hasOwnProperty'', native_function ''hasOwnProperty''),
      (''__lookupGetter__'', native_function ''__lookupGetter__''),
      (''__lookupSetter__'', native_function ''__lookupSetter__''),
      (''isPrototypeOf'', native_function ''isPrototypeOf''),
      (''propertyIsEnumerable'', native_function ''propertyIsEnumerable''),
      (''toString'', native_function ''toString''),
      (''valueOf'', native_function ''valueOf''),
      (''__proto__'', ''[object Object]''),
      (''toLocaleString'', native_function ''toLocaleString'')]"

text \<open>\<^verbatim>\<open>stats.categories[key]\<close>: the own property, else the inherited one, else undefined.\<close>

definition get_category :: "(string \<times> catval) list \<Rightarrow> string \<Rightarrow> catval option" where
  "get_category cats key =
     (case map_of cats key of
        Some v \<Rightarrow> Some v
      | None \<Rightarrow> map_option CStr (map_of object_prototype key))"

text \<open>
  \<^verbatim>\<open>(v || 0) + 1\<close>: a falsy \<^verbatim>\<open>v\<close> counts as 0; on a value that is not a number, \<^verbatim>\<open>+\<close>
  is string concatenation.
\<close>

fun or_zero_plus_one :: "catval option \<Rightarrow> catval" where
  "or_zero_plus_one None = CNum 1"
| "or_zero_plus_one (Some (CNum n)) = CNum (n + 1)"
| "or_zero_plus_one (Some (CStr t)) = (if t = [] then CNum 1 else CStr (t @ ''1''))"

text \<open>
  \<^verbatim>\<open>stats.categories[key] = v\<close>: defines or overwrites the own property, except for the
  key \<^verbatim>\<open>__proto__\<close>, whose inherited setter ignores a value that is not an object.
  The list holds the own properties in the order of their first assignment; the order
  of the keys of a JSON object carries no meaning.
\<close>

definition set_category :: "(string \<times> catval) list \<Rightarrow> string \<Rightarrow> catval \<Rightarrow> (string \<times> catval) list" where
  "set_category cats key v = (if key = ''__proto__'' then cats else AList.update key v cats)"

definition count_category :: "(string \<times> catval) list \<Rightarrow> product \<Rightarrow> (string \<times> catval) list" where
  "count_category cats product =
     set_category cats (category product)
       (or_zero_plus_one (get_category cats (category product)))"

definition categories :: "product list \<Rightarrow> (string \<times> catval) list" where
  "categories ps = foldl count_category [] ps"

definition products_stats :: "product list \<Rightarrow> response" where
  "products_stats ps =
     (let prices = map price ps
      in res_json (StatsJson
        \<lparr>stats_totalProducts = length ps,
         stats_inStock = length (filter (\<lambda>p. inStock p) ps),
         stats_outOfStock = length (filter (\<lambda>p. \<not> inStock p) ps),
         stats_categories = categories ps,
         stats_averagePrice =
           (if length ps > 0 then sum_list prices / rat_of_nat (length prices) else 0),
         stats_min = (if length ps > 0 then Min (set prices) else 0),
         stats_max = (if length ps > 0 then Max (set prices) else 0)\<rparr>))"

text \<open>\<^verbatim>\<open>GET /api/products/:id\<close>, lines 321--333.\<close>

definition not_found_message :: "string \<Rightarrow> string" where
  "not_found_message i = ''Product with ID '' @ i @ '' not found''"

definition get_product :: "product list \<Rightarrow> string \<Rightarrow> error + response" where
  "get_product ps i =
     (case find (\<lambda>p. id_p p = i) ps of
        None \<Rightarrow> Inl (NotFoundError (not_found_message i))
      | Some product \<Rightarrow> Inr (res_json (ProductJson product)))"

text \<open>
  \<^verbatim>\<open>POST /api/products\<close>, the handler proper, lines 337--357. The first argument is the
  value that the call \<^verbatim>\<open>uuidv4()\<close> returns; the results are the response and the new
  store. The route runs \<^verbatim>\<open>validateProduct\<close> first, so the handler only sees a body with
  three strings, a number and a boolean; on anything else the model answers as the
  \<^verbatim>\<open>catch\<close> branch does when the destructuring or a call of \<^verbatim>\<open>trim\<close> throws.
\<close>

definition post_product ::
  "string \<Rightarrow> body option \<Rightarrow> product list \<Rightarrow> response \<times> product list" where
  "post_product uuid rb ps =
     (case rb of
        None \<Rightarrow> (errorHandler OtherError, ps)
      | Some b \<Rightarrow>
          (case (body_name b, body_description b, body_price b, body_category b, body_inStock b) of
             (JStr n, JStr d, JNum pr, JStr c, JBool i) \<Rightarrow>
               (let newProduct =
                      \<lparr>id_p = uuid, name = trim n, description = trim d, price = pr,
                       category = trim c, inStock = i\<rparr>
                in (\<lparr>status = 201,
                      json = MessageJson ''Product created successfully'' newProduct\<rparr>,
                    ps @ [newProduct]))
           | _ \<Rightarrow> (errorHandler OtherError, ps)))"

text \<open>\<^verbatim>\<open>PUT /api/products/:id\<close>, the handler proper, lines 365--391.\<close>

definition put_product ::
  "string \<Rightarrow> body option \<Rightarrow> product list \<Rightarrow> response \<times> product list" where
  "put_product i rb ps =
     (case findIndex (\<lambda>p. id_p p = i) ps of
        None \<Rightarrow> (errorHandler (NotFoundError (not_found_message i)), ps)
      | Some productIndex \<Rightarrow>
          (case rb of
             None \<Rightarrow> (errorHandler OtherError, ps)
           | Some b \<Rightarrow>
               (case (body_name b, body_description b, body_price b, body_category b,
                      body_inStock b) of
                  (JStr n, JStr d, JNum pr, JStr c, JBool s) \<Rightarrow>
                    (let updated = (ps ! productIndex)
                           \<lparr>name := trim n, description := trim d, price := pr,
                            category := trim c, inStock := s\<rparr>
                     in (res_json (MessageJson ''Product updated successfully'' updated),
                         ps[productIndex := updated]))
                | _ \<Rightarrow> (errorHandler OtherError, ps))))"

text \<open>\<^verbatim>\<open>DELETE /api/products/:id\<close>, the handler proper, lines 395--412.\<close>

definition delete_product :: "string \<Rightarrow> product list \<Rightarrow> response \<times> product list" where
  "delete_product i ps =
     (case findIndex (\<lambda>p. id_p p = i) ps of
        None \<Rightarrow> (errorHandler (NotFoundError (not_found_message i)), ps)
      | Some productIndex \<Rightarrow>
          (res_json (MessageJson ''Product deleted successfully'' (ps ! productIndex)),
           take productIndex ps @ drop (Suc productIndex) ps))"

section \<open>The request pipeline\<close>

text \<open>
  A request is identified by the product route that matched it, with the route
  parameter \<^verbatim>\<open>:id\<close>, and carries the header, body and query that the handlers read.
\<close>

datatype route =
    GetProducts
  | SearchProducts
  | ProductStats
  | GetProduct string
  | PostProduct
  | PutProduct string
  | DeleteProduct string

record request =
  route :: route
  x_api_key :: "string option"
  req_body :: "body option"
  req_query :: query

fun mutating :: "route \<Rightarrow> bool" where
  "mutating PostProduct = True"
| "mutating (PutProduct _) = True"
| "mutating (DeleteProduct _) = True"
| "mutating _ = False"

text \<open>
  One request against the store: the middleware chain registered for the route,
  lines 214, 260, 285, 321, 336, 361--365 and 395, then the handler. The first argument
  is the result of \<^verbatim>\<open>uuidv4()\<close>, should the request reach that call.
\<close>

definition handle :: "string \<Rightarrow> request \<Rightarrow> product list \<Rightarrow> response \<times> product list" where
  "handle uuid r ps =
     (case route r of
        GetProducts \<Rightarrow> (get_products ps (req_query r), ps)
      | SearchProducts \<Rightarrow> (respond (search_products ps (req_query r)), ps)
      | ProductStats \<Rightarrow> (products_stats ps, ps)
      | GetProduct i \<Rightarrow> (respond (get_product ps i), ps)
      | PostProduct \<Rightarrow>
          (case authMiddleware (x_api_key r) of
             Inl e \<Rightarrow> (errorHandler e, ps)
           | Inr _ \<Rightarrow>
               (case validateProduct (req_body r) of
                  Inl e \<Rightarrow> (errorHandler e, ps)
                | Inr _ \<Rightarrow> post_product uuid (req_body r) ps))
      | PutProduct i \<Rightarrow>
          (case authMiddleware (x_api_key r) of
             Inl e \<Rightarrow> (errorHandler e, ps)
           | Inr _ \<Rightarrow>
               (case validateProduct (req_body r) of
                  Inl e \<Rightarrow> (errorHandler e, ps)
                | Inr _ \<Rightarrow> put_product i (req_body r) ps))
      | DeleteProduct i \<Rightarrow>
          (case authMiddleware (x_api_key r) of
             Inl e \<Rightarrow> (errorHandler e, ps)
           | Inr _ \<Rightarrow> delete_product i ps))"

text \<open>
  The lifetime of the store: requests served one after the other, each paired with the
  identifier that \<^verbatim>\<open>uuidv4()\<close> would generate for it.
\<close>

fun serve :: "product list \<Rightarrow> (string \<times> request) list \<Rightarrow> product list" where
  "serve ps [] = ps"
| "serve ps ((uuid, r) # rs) = serve (snd (handle uuid r ps)) rs"


section \<open>The specification's notions\<close>

text \<open>
  The pagination window as the specification words it: the items of the filtered list
  whose index lies in the half-open interval from \<open>a\<close> to \<open>b\<close>.
\<close>

definition window :: "'a list \<Rightarrow> int \<Rightarrow> int \<Rightarrow> 'a list" where
  "window xs a b = map (\<lambda>i. xs ! i) (filter (\<lambda>i. a \<le> int i \<and> int i < b) [0..<length xs])"

text \<open>The validator's rules as the specification words them.\<close>

definition nonempty_string :: "jval \<Rightarrow> bool" where
  "nonempty_string v = (case v of JStr s \<Rightarrow> s \<noteq> [] | _ \<Rightarrow> False)"

definition nonnegative_number :: "jval \<Rightarrow> bool" where
  "nonnegative_number v = (case v of JNum n \<Rightarrow> 0 \<le> n | _ \<Rightarrow> False)"

definition is_boolean :: "jval \<Rightarrow> bool" where
  "is_boolean v = (case v of JBool _ \<Rightarrow> True | _ \<Rightarrow> False)"

text \<open>The rule on strings as the validator has it: a string with a character that is not white space.\<close>

definition nonblank_string :: "jval \<Rightarrow> bool" where
  "nonblank_string v = (case v of JStr s \<Rightarrow> \<exists>c \<in> set s. \<not> is_ws c | _ \<Rightarrow> False)"

text \<open>The message of the first rule of a list that does not hold, if there is one.\<close>

fun first_failure :: "(bool \<times> string) list \<Rightarrow> string option" where
  "first_failure [] = None"
| "first_failure ((ok, m) # rules) = (if ok then first_failure rules else Some m)"

text \<open>\<open>t\<close> is \<open>s\<close> with its leading and trailing white space removed, and nothing else.\<close>

definition trimmed_of :: "string \<Rightarrow> string \<Rightarrow> bool" where
  "trimmed_of s t =
     (\<exists>pre suf. s = pre @ t @ suf \<and> (\<forall>c \<in> set pre. is_ws c) \<and> (\<forall>c \<in> set suf. is_ws c) \<and>
        (t \<noteq> [] \<longrightarrow> \<not> is_ws (hd t) \<and> \<not> is_ws (last t)))"

text \<open>\<open>s\<close> contains \<open>t\<close> as a substring, letter case apart.\<close>

definition contains_ci :: "string \<Rightarrow> string \<Rightarrow> bool" where
  "contains_ci s t = sublist (toLowerCase t) (toLowerCase s)"

text \<open>Two strings are equal up to letter case.\<close>

definition equal_ci :: "string \<Rightarrow> string \<Rightarrow> bool" where
  "equal_ci s t = (toLowerCase s = toLowerCase t)"

text \<open>
  Product \<open>p\<close> holds the fields supplied in body \<open>b\<close>: the three strings trimmed, the
  price and the stock flag as they were supplied.
\<close>

definition stores_trimmed :: "body \<Rightarrow> product \<Rightarrow> bool" where
  "stores_trimmed b p =
     (\<exists>n d c. body_name b = JStr n \<and> body_description b = JStr d \<and> body_category b = JStr c \<and>
        trimmed_of n (name p) \<and> trimmed_of d (description p) \<and> trimmed_of c (category p) \<and>
        body_price b = JNum (price p) \<and> body_inStock b = JBool (inStock p))"

section \<open>Example requests\<close>

text \<open>A request without query parameters.\<close>

definition no_query :: query where
  "no_query =
     \<lparr>query_category = None, query_inStock = None, query_page = None, query_limit = None,
      query_q = None\<rparr>"

text \<open>The bodies of the two \<^verbatim>\<open>curl\<close> examples of README.md for POST and PUT.\<close>

definition gaming_mouse :: body where
  "gaming_mouse =
     \<lparr>body_name = JStr ''Gaming Mouse'',
      body_description = JStr ''High-precision gaming mouse with RGB lighting'',
      body_price = JNum 75, body_category = JStr ''electronics'', body_inStock = JBool True\<rparr>"

definition updated_laptop :: body where
  "updated_laptop =
     \<lparr>body_name = JStr ''Updated Laptop'', body_description = JStr ''Updated description'',
      body_price = JNum 1300, body_category = JStr ''electronics'', body_inStock = JBool False\<rparr>"

text \<open>
  The POST example with white space around its three strings; the name starts with a
  no-break space.
\<close>

definition padded_mouse :: body where
  "padded_mouse =
     \<lparr>body_name = JStr (CHR 0xA0 # '' Gaming Mouse ''),
      body_description = JStr '' High-precision gaming mouse with RGB lighting  '',
      body_price = JNum 75, body_category = JStr '' electronics '', body_inStock = JBool True\<rparr>"

text \<open>The POST example with a name of white space only.\<close>

definition blank_mouse :: body where
  "blank_mouse =
     \<lparr>body_name = JStr ''   '',
      body_description = JStr ''High-precision gaming mouse with RGB lighting'',
      body_price = JNum 75, body_category = JStr ''electronics'', body_inStock = JBool True\<rparr>"

definition req :: "route \<Rightarrow> string option \<Rightarrow> body option \<Rightarrow> query \<Rightarrow> request" where
  "req rt k b qu = \<lparr>route = rt, x_api_key = k, req_body = b, req_query = qu\<rparr>"

section \<open>Auxiliary facts\<close>

subsection \<open>Strings and the validator\<close>

lemma includes_str_sublist: "includes_str s t = sublist t s"
  by (induction s) (auto simp: sublist_Cons_right)

lemma trim_Nil_iff: "trim s = [] \<longleftrightarrow> (\<forall>c \<in> set s. is_ws c)"
proof -
  have "trim s = [] \<longleftrightarrow> dropWhile is_ws (rev (dropWhile is_ws s)) = []"
    by (simp add: trim_def)
  also have "\<dots> \<longleftrightarrow> (\<forall>c \<in> set (dropWhile is_ws s). is_ws c)"
    by (simp add: dropWhile_eq_Nil_conv)
  also have "\<dots> \<longleftrightarrow> (\<forall>c \<in> set s. is_ws c)"
  proof
    assume a: "\<forall>c \<in> set (dropWhile is_ws s). is_ws c"
    show "\<forall>c \<in> set s. is_ws c"
    proof (cases "dropWhile is_ws s")
      case Nil
      then show ?thesis by (simp add: dropWhile_eq_Nil_conv)
    next
      case (Cons x xs)
      then have "\<not> is_ws x" using hd_dropWhile [of is_ws s] by simp
      moreover have "is_ws x" using a Cons by simp
      ultimately show ?thesis by simp
    qed
  next
    assume "\<forall>c \<in> set s. is_ws c"
    then show "\<forall>c \<in> set (dropWhile is_ws s). is_ws c"
      using set_dropWhileD by fastforce
  qed
  finally show ?thesis .
qed

lemma trim_decompose:
  "s = takeWhile is_ws s @ trim s @ rev (takeWhile is_ws (rev (dropWhile is_ws s)))"
proof -
  let ?u = "dropWhile is_ws s"
  have "rev (takeWhile is_ws (rev ?u) @ dropWhile is_ws (rev ?u)) =
          rev (dropWhile is_ws (rev ?u)) @ rev (takeWhile is_ws (rev ?u))"
    by (rule rev_append)
  moreover have "takeWhile is_ws (rev ?u) @ dropWhile is_ws (rev ?u) = rev ?u"
    by (rule takeWhile_dropWhile_id)
  ultimately have "rev (rev ?u) = rev (dropWhile is_ws (rev ?u)) @ rev (takeWhile is_ws (rev ?u))"
    by (simp only:)
  then have u: "?u = trim s @ rev (takeWhile is_ws (rev ?u))"
    by (simp only: rev_rev_ident trim_def)
  have "s = takeWhile is_ws s @ ?u" by simp
  with u show ?thesis by metis
qed

lemma trim_ends:
  assumes "trim s \<noteq> []"
  shows "\<not> is_ws (hd (trim s))" and "\<not> is_ws (last (trim s))"
proof -
  let ?u = "dropWhile is_ws s"
  let ?v = "dropWhile is_ws (rev ?u)"
  have v: "?v \<noteq> []" using assms by (simp add: trim_def)
  then have "\<not> is_ws (hd ?v)" by (rule hd_dropWhile)
  moreover have "last (trim s) = hd ?v" using v by (simp add: trim_def last_rev)
  ultimately show "\<not> is_ws (last (trim s))" by simp
  have u: "?u \<noteq> []" using v by (cases "dropWhile is_ws s") simp_all
  then have "\<not> is_ws (hd ?u)" by (rule hd_dropWhile)
  moreover have "?u = trim s @ rev (takeWhile is_ws (rev ?u))"
    using trim_decompose [of s] by (metis same_append_eq takeWhile_dropWhile_id)
  then have "hd ?u = hd (trim s)" using assms by (metis hd_append2)
  ultimately show "\<not> is_ws (hd (trim s))" by simp
qed

lemma trim_trimmed_of: "trimmed_of s (trim s)"
  unfolding trimmed_of_def
proof (intro exI conjI)
  show "s = takeWhile is_ws s @ trim s @ rev (takeWhile is_ws (rev (dropWhile is_ws s)))"
    by (rule trim_decompose)
  show "\<forall>c \<in> set (takeWhile is_ws s). is_ws c"
    by (auto dest: set_takeWhileD)
  show "\<forall>c \<in> set (rev (takeWhile is_ws (rev (dropWhile is_ws s)))). is_ws c"
    by (auto dest: set_takeWhileD)
  show "trim s \<noteq> [] \<longrightarrow> \<not> is_ws (hd (trim s)) \<and> \<not> is_ws (last (trim s))"
    using trim_ends by blast
qed

lemma not_nonempty_string_iff: "not_nonempty_string v \<longleftrightarrow> \<not> nonblank_string v"
  by (cases v) (auto simp: not_nonempty_string_def nonblank_string_def trim_Nil_iff)

lemma not_price_iff: "not_price v \<longleftrightarrow> \<not> nonnegative_number v"
  by (cases v) (auto simp: not_price_def nonnegative_number_def)

lemma typeof_boolean_iff: "typeof v = ''boolean'' \<longleftrightarrow> is_boolean v"
  by (cases v) (auto simp: is_boolean_def)

lemma nonblank_string_cases: "nonblank_string v \<Longrightarrow> \<exists>s. v = JStr s"
  by (cases v) (auto simp: nonblank_string_def)

lemma validateProduct_first_failure:
  "validateProduct (Some b) =
     (case first_failure
        [(nonblank_string (body_name b), name_message),
         (nonblank_string (body_description b), description_message),
         (nonnegative_number (body_price b), price_message),
         (nonblank_string (body_category b), category_message),
         (is_boolean (body_inStock b), inStock_message)] of
        None \<Rightarrow> Inr ()
      | Some m \<Rightarrow> Inl (ValidationError m))"
  by (simp add: validateProduct_def not_nonempty_string_iff not_price_iff typeof_boolean_iff)

lemma validateProduct_Inr_iff:
  "validateProduct (Some b) = Inr () \<longleftrightarrow>
     nonblank_string (body_name b) \<and> nonblank_string (body_description b) \<and>
     nonnegative_number (body_price b) \<and> nonblank_string (body_category b) \<and>
     is_boolean (body_inStock b)"
  by (simp add: validateProduct_def not_nonempty_string_iff not_price_iff typeof_boolean_iff)

lemma validateProduct_None: "validateProduct None = Inl OtherError"
  by (simp add: validateProduct_def)

lemma validateProduct_shape:
  assumes "validateProduct rb = Inr ()"
  obtains b n d pr c s where
    "rb = Some b" "body_name b = JStr n" "body_description b = JStr d" "body_price b = JNum pr"
    "body_category b = JStr c" "body_inStock b = JBool s"
    "trim n \<noteq> []" "trim d \<noteq> []" "0 \<le> pr" "trim c \<noteq> []"
proof -
  from assms obtain b where b: "rb = Some b"
    by (cases rb) (simp_all add: validateProduct_None)
  with assms have h: "nonblank_string (body_name b)" "nonblank_string (body_description b)"
     "nonnegative_number (body_price b)" "nonblank_string (body_category b)"
     "is_boolean (body_inStock b)"
    by (simp_all add: validateProduct_Inr_iff)
  from h(1) obtain n where n: "body_name b = JStr n" "trim n \<noteq> []"
    by (cases "body_name b") (auto simp: nonblank_string_def trim_Nil_iff)
  from h(2) obtain d where d: "body_description b = JStr d" "trim d \<noteq> []"
    by (cases "body_description b") (auto simp: nonblank_string_def trim_Nil_iff)
  from h(3) obtain pr where pr: "body_price b = JNum pr" "0 \<le> pr"
    by (cases "body_price b") (auto simp: nonnegative_number_def)
  from h(4) obtain c where c: "body_category b = JStr c" "trim c \<noteq> []"
    by (cases "body_category b") (auto simp: nonblank_string_def trim_Nil_iff)
  from h(5) obtain s where s: "body_inStock b = JBool s"
    by (cases "body_inStock b") (auto simp: is_boolean_def)
  from b n d pr c s that show thesis by blast
qed

subsection \<open>Lists\<close>

lemma filter_interval_upt:
  "filter (\<lambda>i. lo \<le> i \<and> i < hi) [0..<n] = [min lo n..<min hi n]"
proof (induction n)
  case 0
  then show ?case by simp
next
  case (Suc n)
  show ?case
  proof (cases "lo \<le> n \<and> n < hi")
    case True
    then have "min lo (Suc n) = min lo n" "min hi (Suc n) = Suc n" "min lo n \<le> n" "min hi n = n"
      by simp_all
    with Suc True show ?thesis by simp
  next
    case False
    then have "[min lo (Suc n)..<min hi (Suc n)] = [min lo n..<min hi n]"
      by (auto simp: min_def)
    with Suc False show ?thesis by simp
  qed
qed

lemma map_nth_upt:
  "j \<le> length xs \<Longrightarrow> map (\<lambda>i. xs ! i) [i..<j] = take (j - i) (drop i xs)"
  by (rule nth_equalityI) auto

lemma slice_window:
  assumes "0 \<le> a" "0 \<le> b"
  shows "slice xs a b = window xs a b"
proof -
  let ?n = "length xs"
  have f: "(\<lambda>i. a \<le> int i \<and> int i < b) = (\<lambda>i. nat a \<le> i \<and> i < nat b)"
    using assms by (intro ext) auto
  have "window xs a b = map (\<lambda>i. xs ! i) [min (nat a) ?n..<min (nat b) ?n]"
    by (simp only: window_def f filter_interval_upt)
  also have "\<dots> = take (min (nat b) ?n - min (nat a) ?n) (drop (min (nat a) ?n) xs)"
    by (rule map_nth_upt) simp
  finally have w: "window xs a b = take (min (nat b) ?n - min (nat a) ?n) (drop (min (nat a) ?n) xs)" .
  have ka: "nat (min a (int ?n)) = min (nat a) ?n" using assms by arith
  have kb: "nat (min b (int ?n)) = min (nat b) ?n" using assms by arith
  have "nat (min b (int ?n) - min a (int ?n)) = nat (min b (int ?n)) - nat (min a (int ?n))"
    using assms by (intro nat_diff_distrib') simp_all
  then have "slice xs a b = take (min (nat b) ?n - min (nat a) ?n) (drop (min (nat a) ?n) xs)"
    using assms by (simp add: slice_def Let_def ka kb del: min_less_iff_conj)
  with w show ?thesis by simp
qed

lemma findIndex_None_iff: "findIndex P xs = None \<longleftrightarrow> (\<forall>x \<in> set xs. \<not> P x)"
  by (induction xs) auto

lemma findIndex_Some:
  "findIndex P xs = Some k \<Longrightarrow> k < length xs \<and> P (xs ! k) \<and> (\<forall>j < k. \<not> P (xs ! j))"
proof (induction xs arbitrary: k)
  case Nil
  then show ?case by simp
next
  case (Cons x xs)
  show ?case
  proof (cases "P x")
    case True
    with Cons.prems show ?thesis by simp
  next
    case False
    with Cons.prems obtain k' where k': "findIndex P xs = Some k'" "k = Suc k'"
      by auto
    from Cons.IH [OF k'(1)] False k'(2) show ?thesis
      by (auto simp: nth_Cons split: nat.splits)
  qed
qed



subsection \<open>The pipeline\<close>

lemma authMiddleware_Inr_iff: "authMiddleware k = Inr () \<longleftrightarrow> k = Some api_key"
  by (cases k) (auto simp: authMiddleware_def api_key_def)

lemma authMiddleware_Inl:
  "k \<noteq> Some api_key \<Longrightarrow> authMiddleware k = Inl (AuthenticationError auth_message)"
  by (cases k) (auto simp: authMiddleware_def)

lemma authMiddleware_ok: "authMiddleware (Some api_key) = Inr ()"
  by (simp add: authMiddleware_Inr_iff)

lemma status_validation:
  "validateProduct rb = Inl e \<Longrightarrow> status (errorHandler e) = 400 \<or> status (errorHandler e) = 500"
  by (auto simp: validateProduct_def split: option.splits if_splits)

lemma status_post_product: "status (fst (post_product u b ps)) \<in> {201, 500}"
  by (auto simp: post_product_def Let_def split: option.splits jval.splits prod.splits)

lemma status_put_product: "status (fst (put_product i b ps)) \<in> {200, 404, 500}"
  by (auto simp: put_product_def Let_def res_json_def split: option.splits jval.splits prod.splits)

lemma status_delete_product: "status (fst (delete_product i ps)) \<in> {200, 404}"
  by (auto simp: delete_product_def res_json_def split: option.splits)

lemma status_search: "status (respond (search_products ps qu)) \<in> {200, 400}"
  by (auto simp: search_products_def respond_def res_json_def split: option.splits)

lemma status_get_product: "status (respond (get_product ps i)) \<in> {200, 404}"
  by (auto simp: get_product_def respond_def res_json_def split: option.splits)

lemma handle_unauthenticated:
  assumes "mutating (route r)" "x_api_key r \<noteq> Some api_key"
  shows "handle u r ps = (errorHandler (AuthenticationError auth_message), ps)"
  using assms by (cases "route r") (simp_all add: handle_def authMiddleware_Inl)

lemma handle_authenticated_status:
  assumes "mutating (route r)" "x_api_key r = Some api_key"
  shows "status (fst (handle u r ps)) \<noteq> 401"
proof (cases "route r")
  case PostProduct
  show ?thesis
  proof (cases "validateProduct (req_body r)")
    case (Inl e)
    with PostProduct assms status_validation [OF Inl] show ?thesis
      by (auto simp: handle_def authMiddleware_ok)
  next
    case (Inr x)
    with PostProduct assms status_post_product [of u "req_body r" ps] show ?thesis
      by (auto simp: handle_def authMiddleware_ok)
  qed
next
  case (PutProduct i)
  show ?thesis
  proof (cases "validateProduct (req_body r)")
    case (Inl e)
    with PutProduct assms status_validation [OF Inl] show ?thesis
      by (auto simp: handle_def authMiddleware_ok)
  next
    case (Inr x)
    with PutProduct assms status_put_product [of i "req_body r" ps] show ?thesis
      by (auto simp: handle_def authMiddleware_ok)
  qed
next
  case (DeleteProduct i)
  with assms status_delete_product [of i ps] show ?thesis
    by (auto simp: handle_def authMiddleware_ok)
qed (use assms in simp_all)

lemma handle_read_ignores_key:
  assumes "\<not> mutating (route g)"
  shows "handle u (g\<lparr>x_api_key := k\<rparr>) ps = handle u g ps"
  using assms by (cases "route g") (simp_all add: handle_def)

lemma handle_read_status:
  assumes "\<not> mutating (route g)"
  shows "status (fst (handle u g ps)) \<noteq> 401"
proof (cases "route g")
  case GetProducts
  then show ?thesis by (simp add: handle_def get_products_def res_json_def)
next
  case SearchProducts
  with status_search [of ps "req_query g"] show ?thesis by (auto simp: handle_def)
next
  case ProductStats
  then show ?thesis by (simp add: handle_def products_stats_def res_json_def Let_def)
next
  case (GetProduct i)
  with status_get_product [of ps i] show ?thesis by (auto simp: handle_def)
qed (use assms in simp_all)

subsection \<open>The store\<close>

lemma put_product_missing:
  assumes "i \<notin> set (map id_p ps)"
  shows "put_product i b ps = (errorHandler (NotFoundError (not_found_message i)), ps)"
proof -
  from assms have "findIndex (\<lambda>p. id_p p = i) ps = None"
    by (auto simp: findIndex_None_iff)
  then show ?thesis by (simp add: put_product_def)
qed

lemma post_product_valid:
  assumes "body_name b = JStr n" "body_description b = JStr d" "body_price b = JNum pr"
    "body_category b = JStr c" "body_inStock b = JBool s"
  shows "post_product u (Some b) ps =
     (\<lparr>status = 201, json = MessageJson ''Product created successfully''
         \<lparr>id_p = u, name = trim n, description = trim d, price = pr, category = trim c,
          inStock = s\<rparr>\<rparr>,
      ps @ [\<lparr>id_p = u, name = trim n, description = trim d, price = pr, category = trim c,
          inStock = s\<rparr>])"
  using assms by (simp add: post_product_def Let_def)

lemma put_product_valid:
  assumes "body_name b = JStr n" "body_description b = JStr d" "body_price b = JNum pr"
    "body_category b = JStr c" "body_inStock b = JBool s"
    and "findIndex (\<lambda>p. id_p p = i) ps = Some k"
  shows "put_product i (Some b) ps =
     (res_json (MessageJson ''Product updated successfully''
         ((ps ! k)\<lparr>name := trim n, description := trim d, price := pr, category := trim c,
          inStock := s\<rparr>)),
      ps[k := (ps ! k)\<lparr>name := trim n, description := trim d, price := pr, category := trim c,
          inStock := s\<rparr>])"
  using assms by (simp add: put_product_def Let_def)







subsection \<open>Accepted and rejected bodies\<close>

lemma status_auth_error: "authMiddleware k = Inl e \<Longrightarrow> status (errorHandler e) = 401"
  by (auto simp: authMiddleware_def split: if_splits)

lemma stores_trimmed_trim:
  assumes "body_name b = JStr n" "body_description b = JStr d" "body_price b = JNum pr"
    "body_category b = JStr c" "body_inStock b = JBool s"
    and "name p = trim n" "description p = trim d" "price p = pr" "category p = trim c"
    "inStock p = s"
  shows "stores_trimmed b p"
  unfolding stores_trimmed_def using assms trim_trimmed_of by auto

lemma handle_post_created:
  assumes "route r = PostProduct" and "status (fst (handle u r ps)) = 201"
  obtains b p where
    "handle u r ps =
       (\<lparr>status = 201, json = MessageJson ''Product created successfully'' p\<rparr>, ps @ [p])"
    "id_p p = u" "req_body r = Some b" "stores_trimmed b p"
    "validateProduct (req_body r) = Inr ()" "x_api_key r = Some api_key"
proof (cases "authMiddleware (x_api_key r)")
  case (Inl e)
  with assms status_auth_error [OF Inl] show ?thesis by (simp add: handle_def)
next
  case auth: (Inr x)
  then have key: "x_api_key r = Some api_key" by (simp add: authMiddleware_Inr_iff)
  show ?thesis
  proof (cases "validateProduct (req_body r)")
    case (Inl e)
    with assms auth status_validation [OF Inl] show ?thesis by (auto simp: handle_def)
  next
    case (Inr y)
    then have v: "validateProduct (req_body r) = Inr ()" by simp
    then obtain b n d pr c s where rb: "req_body r = Some b" and b:
      "body_name b = JStr n" "body_description b = JStr d"
      "body_price b = JNum pr" "body_category b = JStr c"
      "body_inStock b = JBool s"
      by (rule validateProduct_shape)
    let ?p = "\<lparr>id_p = u, name = trim n, description = trim d, price = pr, category = trim c,
          inStock = s\<rparr>"
    have "handle u r ps =
       (\<lparr>status = 201, json = MessageJson ''Product created successfully'' ?p\<rparr>, ps @ [?p])"
      using assms(1) auth Inr rb post_product_valid [OF b] by (simp add: handle_def)
    moreover have "stores_trimmed b ?p"
      by (rule stores_trimmed_trim [OF b]) simp_all
    ultimately show ?thesis using that [of ?p b] rb v key by simp
  qed
qed

lemma handle_put_updated:
  assumes "route r = PutProduct i" and "status (fst (handle u r ps)) = 200"
  obtains b k p where
    "k < length ps" "id_p (ps ! k) = i" "\<forall>j < k. id_p (ps ! j) \<noteq> i"
    "handle u r ps = (res_json (MessageJson ''Product updated successfully'' p), ps[k := p])"
    "id_p p = i" "req_body r = Some b" "stores_trimmed b p"
    "validateProduct (req_body r) = Inr ()" "x_api_key r = Some api_key"
proof (cases "authMiddleware (x_api_key r)")
  case (Inl e)
  with assms status_auth_error [OF Inl] show ?thesis by (simp add: handle_def)
next
  case auth: (Inr x)
  then have key: "x_api_key r = Some api_key" by (simp add: authMiddleware_Inr_iff)
  show ?thesis
  proof (cases "validateProduct (req_body r)")
    case (Inl e)
    with assms auth status_validation [OF Inl] show ?thesis by (auto simp: handle_def)
  next
    case (Inr y)
    then have v: "validateProduct (req_body r) = Inr ()" by simp
    then obtain b n d pr c s where rb: "req_body r = Some b" and b:
      "body_name b = JStr n" "body_description b = JStr d"
      "body_price b = JNum pr" "body_category b = JStr c"
      "body_inStock b = JBool s"
      by (rule validateProduct_shape)
    show ?thesis
    proof (cases "findIndex (\<lambda>p. id_p p = i) ps")
      case None
      with assms auth Inr show ?thesis by (simp add: handle_def put_product_def)
    next
      case (Some k)
      let ?p = "(ps ! k)\<lparr>name := trim n, description := trim d, price := pr,
                  category := trim c, inStock := s\<rparr>"
      from findIndex_Some [OF Some] have k: "k < length ps" "id_p (ps ! k) = i"
        "\<forall>j < k. id_p (ps ! j) \<noteq> i"
        by simp_all
      have "handle u r ps =
          (res_json (MessageJson ''Product updated successfully'' ?p), ps[k := ?p])"
        using assms(1) auth Inr rb put_product_valid [OF b Some] by (simp add: handle_def)
      moreover have "stores_trimmed b ?p"
        by (rule stores_trimmed_trim [OF b]) simp_all
      ultimately show ?thesis using that [of k ?p b] rb k v key by simp
    qed
  qed
qed

lemma blank_name_rejected:
  assumes "body_name b = JStr n" and "\<forall>c \<in> set n. is_ws c"
  shows "validateProduct (Some b) = Inl (ValidationError name_message)"
  using assms by (simp add: validateProduct_def not_nonempty_string_iff nonblank_string_def)

lemma handle_blank_name:
  assumes "route r = PostProduct \<or> route r = PutProduct i"
    and "req_body r = Some b" and "body_name b = JStr n" and "\<forall>c \<in> set n. is_ws c"
  shows "snd (handle u r ps) = ps"
    and "x_api_key r = Some api_key \<Longrightarrow>
           fst (handle u r ps) = errorHandler (ValidationError name_message)"
  using assms(1,2) blank_name_rejected [OF assms(3,4)]
  by (auto simp: handle_def authMiddleware_ok split: sum.splits)

lemma omitted_field_rejected:
  assumes "body_name b = JUndefined \<or> body_description b = JUndefined \<or>
     body_price b = JUndefined \<or> body_category b = JUndefined \<or> body_inStock b = JUndefined"
  shows "\<exists>m. validateProduct (Some b) = Inl (ValidationError m)"
proof -
  have "validateProduct (Some b) \<noteq> Inr ()"
    using assms
    by (auto simp: validateProduct_Inr_iff nonblank_string_def nonnegative_number_def
        is_boolean_def)
  then show ?thesis
    by (auto simp: validateProduct_def split: if_splits)
qed

lemma messages_distinct:
  "distinct [name_message, description_message, price_message, category_message, inStock_message]"
  by (simp add: name_message_def description_message_def price_message_def
      category_message_def inStock_message_def)

subsection \<open>Search, filters and pagination\<close>

lemma searchResults_contains_ci:
  "searchResults ps qs =
     filter (\<lambda>p. contains_ci (name p) qs \<or> contains_ci (description p) qs) ps"
  by (simp add: searchResults_def contains_ci_def includes_str_sublist)

lemma set_slice_subset: "set (slice xs a b) \<subseteq> set xs"
proof -
  have "set (take n (drop k xs)) \<subseteq> set xs" for n k
    by (meson in_set_dropD in_set_takeD subsetI)
  then show ?thesis by (simp add: slice_def Let_def)
qed

lemma filter_category_Some:
  "c \<noteq> [] \<Longrightarrow> filter_category (Some c) ps = filter (\<lambda>p. equal_ci (category p) c) ps"
  by (simp add: filter_category_def equal_ci_def)

lemma filter_category_none:
  "c = None \<or> c = Some [] \<Longrightarrow> filter_category c ps = ps"
  by (auto simp: filter_category_def)

lemma set_filter_category: "set (filter_category c ps) \<subseteq> set ps"
  by (auto simp: filter_category_def split: option.splits)

lemma set_filter_inStock: "set (filter_inStock i ps) \<subseteq> set ps"
  by (auto simp: filter_inStock_def split: option.splits)

lemma set_filter_inStock_mono:
  "set xs \<subseteq> set ys \<Longrightarrow> set (filter_inStock i xs) \<subseteq> set (filter_inStock i ys)"
  by (auto simp: filter_inStock_def split: option.splits)

lemma slice_whole: "int (length xs) \<le> b \<Longrightarrow> slice xs 0 b = xs"
  by (simp add: slice_def Let_def min_def)

lemma first_page_whole:
  assumes "page_of qu = 1" and "int (length (filteredProducts ps qu)) \<le> limit_of qu"
  shows "paginatedProducts ps qu = filteredProducts ps qu"
  using assms by (simp add: paginatedProducts_def startIndex_def endIndex_def slice_whole)

lemma page_of_filters:
  "page_of (qu\<lparr>query_inStock := i\<rparr>) = page_of qu"
  "page_of (qu\<lparr>query_category := c\<rparr>) = page_of qu"
  "limit_of (qu\<lparr>query_inStock := i\<rparr>) = limit_of qu"
  "limit_of (qu\<lparr>query_category := c\<rparr>) = limit_of qu"
  by (simp_all add: page_of_def limit_of_def)

lemma toLowerCase_latin1: "toLowerCase (''CAF'' @ [CHR 0xC9]) = ''caf'' @ [CHR 0xE9]"
  by code_simp

lemma trim_no_break_space: "trim (CHR 0xA0 # ''X'' @ [CHR 0xA0]) = ''X''"
  by code_simp

lemma filter_category_latin1:
  "filter_category (Some (''CAF'' @ [CHR 0xC9]))
     [(products ! 0)\<lparr>category := ''caf'' @ [CHR 0xE9]\<rparr>] =
   [(products ! 0)\<lparr>category := ''caf'' @ [CHR 0xE9]\<rparr>]"
  by code_simp

lemma searchResults_latin1:
  "searchResults [(products ! 0)\<lparr>name := ''Caf'' @ [CHR 0xE9]\<rparr>] (''CAF'' @ [CHR 0xC9]) =
   [(products ! 0)\<lparr>name := ''Caf'' @ [CHR 0xE9]\<rparr>]"
  by code_simp

lemma filteredProducts_both:
  assumes "query_category qu = Some c" "c \<noteq> []" "query_inStock qu = Some v"
  shows "filteredProducts ps qu =
     filter (\<lambda>p. equal_ci (category p) c \<and> inStock p = (v = ''true'')) ps"
  using assms
  by (simp add: filteredProducts_def filter_category_Some filter_inStock_def conj_commute)

lemma parseInt_or_absent: "parseInt_or None d = d"
  by (simp add: parseInt_or_def)

lemma parseInt_or_nonzero: "d \<noteq> 0 \<Longrightarrow> parseInt_or v d \<noteq> 0"
  by (simp add: parseInt_or_def split: option.splits)

lemma slice_second_page_of_two:
  "slice xs 2 4 = take 2 (drop 2 xs)"
proof -
  have "take (nat (min 4 (int (length xs)) - min 2 (int (length xs)))) (drop (nat (min 2 (int (length xs)))) xs)
      = take 2 (drop 2 xs)"
  proof (cases "4 \<le> length xs")
    case True
    then show ?thesis by (simp add: min_def)
  next
    case False
    then have "nat (min 4 (int (length xs)) - min 2 (int (length xs))) = length xs - 2"
      "drop (nat (min 2 (int (length xs)))) xs = drop 2 xs"
      by (auto simp: min_def)
    moreover from False have "take (length xs - 2) (drop 2 xs) = take 2 (drop 2 xs)"
      by simp
    ultimately show ?thesis by simp
  qed
  then show ?thesis by (simp add: slice_def Let_def)
qed

lemma five_items_second_page:
  assumes "length xs = 5"
  shows "take 2 (drop 2 xs) = [xs ! 2, xs ! 3]"
proof (rule nth_equalityI)
  show "length (take 2 (drop 2 xs)) = length [xs ! 2, xs ! 3]" using assms by simp
next
  fix i assume "i < length (take 2 (drop 2 xs))"
  with assms have "i < 2" by simp
  then have "i = 0 \<or> i = 1" by arith
  with assms show "take 2 (drop 2 xs) ! i = [xs ! 2, xs ! 3] ! i"
    by (auto simp: numeral_3_eq_3 numeral_2_eq_2)
qed

subsection \<open>Statistics\<close>

lemma stats_seed_data:
  "products_stats products =
     \<lparr>status = 200,
      json = StatsJson
        \<lparr>stats_totalProducts = 5, stats_inStock = 4, stats_outOfStock = 1,
         stats_categories = [(''electronics'', CNum 3), (''kitchen'', CNum 1), (''furniture'', CNum 1)],
         stats_averagePrice = 510, stats_min = 50, stats_max = 1200\<rparr>\<rparr>"
  by code_simp

lemma categories_snoc: "categories (ps @ [p]) = count_category (categories ps) p"
  by (simp add: categories_def)

lemma categories_counts:
  assumes "\<forall>p \<in> set ps. category p \<notin> fst ` set object_prototype"
  shows "map_of (categories ps) c =
     (if c \<in> category ` set ps then Some (CNum (length (filter (\<lambda>p. category p = c) ps)))
      else None)"
  using assms
proof (induction ps arbitrary: c rule: rev_induct)
  case Nil
  then show ?case by (simp add: categories_def)
next
  case (snoc p ps)
  let ?k = "category p"
  from snoc.prems have k: "?k \<notin> fst ` set object_prototype" by simp
  then have np: "map_of object_prototype ?k = None" by (simp add: map_of_eq_None_iff)
  from k have nproto: "?k \<noteq> ''__proto__''" by (auto simp: object_prototype_def)
  from snoc.IH snoc.prems have IH: "\<And>c. map_of (categories ps) c =
     (if c \<in> category ` set ps then Some (CNum (length (filter (\<lambda>p. category p = c) ps)))
      else None)"
    by simp
  have g: "get_category (categories ps) ?k = map_of (categories ps) ?k"
    by (simp add: get_category_def np split: option.splits)
  have "map_of (categories (ps @ [p])) c =
      ((map_of (categories ps))(?k \<mapsto> or_zero_plus_one (map_of (categories ps) ?k))) c"
    by (simp add: categories_snoc count_category_def set_category_def nproto g update_conv')
  also have "\<dots> = (if c \<in> category ` set (ps @ [p])
       then Some (CNum (length (filter (\<lambda>p. category p = c) (ps @ [p])))) else None)"
    by (auto simp: IH filter_empty_conv image_iff)
  finally show ?case .
qed

lemma stats_counts:
  "json (products_stats ps) = StatsJson st \<Longrightarrow>
     stats_totalProducts st = length ps \<and>
     stats_inStock st = length (filter inStock ps) \<and>
     stats_outOfStock st = length (filter (\<lambda>p. \<not> inStock p) ps) \<and>
     stats_averagePrice st = (if ps = [] then 0 else sum_list (map price ps) / rat_of_nat (length ps)) \<and>
     (ps \<noteq> [] \<longrightarrow> stats_min st = Min (price ` set ps) \<and> stats_max st = Max (price ` set ps))"
  by (auto simp: products_stats_def res_json_def Let_def)

section \<open>Properties claimed by the specification\<close>

text \<open>
  Claim C1. On the routes POST, PUT and DELETE the authentication check passes exactly
  when the \<^verbatim>\<open>x-api-key\<close> header equals the shared secret; otherwise the answer is the
  401 authentication error and the store is the one before the request. With the secret,
  those routes never answer 401. The GET routes (all products, search, statistics, one product)
  answer the same whatever the header is, and never 401.
\<close>

theorem auth_check_only_on_mutating_routes:
  "(authMiddleware k = Inr () \<longleftrightarrow> k = Some ''demo-api-key-123'') \<and>
   (mutating (route r) \<and> x_api_key r \<noteq> Some ''demo-api-key-123'' \<longrightarrow>
      handle u r ps = (errorHandler (AuthenticationError auth_message), ps) \<and>
      status (fst (handle u r ps)) = 401 \<and> snd (handle u r ps) = ps) \<and>
   (mutating (route r') \<and> x_api_key r' = Some ''demo-api-key-123'' \<longrightarrow>
      status (fst (handle u r' ps)) \<noteq> 401) \<and>
   (\<not> mutating (route g) \<longrightarrow>
      handle u (g\<lparr>x_api_key := k'\<rparr>) ps = handle u g ps \<and>
      status (fst (handle u g ps)) \<noteq> 401)"
proof (intro conjI impI)
  show "authMiddleware k = Inr () \<longleftrightarrow> k = Some ''demo-api-key-123''"
    by (simp add: authMiddleware_Inr_iff api_key_def)
next
  assume a: "mutating (route r) \<and> x_api_key r \<noteq> Some ''demo-api-key-123''"
  then have h: "handle u r ps = (errorHandler (AuthenticationError auth_message), ps)"
    by (intro handle_unauthenticated) (simp_all add: api_key_def)
  then show "handle u r ps = (errorHandler (AuthenticationError auth_message), ps)" .
  from h show "status (fst (handle u r ps)) = 401" by simp
  from h show "snd (handle u r ps) = ps" by simp
next
  assume "mutating (route r') \<and> x_api_key r' = Some ''demo-api-key-123''"
  then show "status (fst (handle u r' ps)) \<noteq> 401"
    by (intro handle_authenticated_status) (simp_all add: api_key_def)
next
  assume g: "\<not> mutating (route g)"
  then show "handle u (g\<lparr>x_api_key := k'\<rparr>) ps = handle u g ps"
    by (rule handle_read_ignores_key)
  from g show "status (fst (handle u g ps)) \<noteq> 401"
    by (rule handle_read_status)
qed

theorem auth_check_only_on_mutating_routes_witness:
  "mutating (route (req PostProduct (Some ''wrong-key'') (Some gaming_mouse) no_query)) \<and>
   x_api_key (req PostProduct (Some ''wrong-key'') (Some gaming_mouse) no_query) \<noteq> Some ''demo-api-key-123'' \<and>
   handle ''uuid'' (req PostProduct (Some ''wrong-key'') (Some gaming_mouse) no_query) products =
     (errorHandler (AuthenticationError auth_message), products) \<and>
   mutating (route (req (DeleteProduct ''1'') (Some ''demo-api-key-123'') None no_query)) \<and>
   x_api_key (req (DeleteProduct ''1'') (Some ''demo-api-key-123'') None no_query) = Some ''demo-api-key-123'' \<and>
   status (fst (handle ''uuid'' (req (DeleteProduct ''1'') (Some ''demo-api-key-123'') None no_query) products)) \<noteq> 401 \<and>
   \<not> mutating (route (req ProductStats None None no_query)) \<and>
   handle ''uuid'' ((req ProductStats None None no_query)\<lparr>x_api_key := Some ''wrong-key''\<rparr>) products =
     handle ''uuid'' (req ProductStats None None no_query) products"
  using auth_check_only_on_mutating_routes
    [of "Some ''wrong-key''" "req PostProduct (Some ''wrong-key'') (Some gaming_mouse) no_query" "''uuid''" products
        "req (DeleteProduct ''1'') (Some ''demo-api-key-123'') None no_query"
        "req ProductStats None None no_query" "Some ''wrong-key''"]
  by (simp add: req_def)

text \<open>
  Claim C2, amended. The page is 1 and the limit is 10 when the parameter is absent, and
  neither is ever 0. The answer is 200 with the slice of the filtered list and the metadata:
  the page, the ceiling of the filtered count divided by the limit, the filtered count,
  whether page times limit is less than the filtered count, and whether the page is
  greater than 1. Whenever both bounds \<open>(page - 1) * limit\<close> and \<open>page * limit\<close> are not
  negative, as they are for a page and a limit of at least 1, the slice is the items of the
  filtered list whose index is in the half-open interval between them. With page 2 and
  limit 2 the slice is the third and fourth items, and there is a next page exactly when
  the filtered list has a fifth item.
\<close>

theorem pagination_window:
  "(query_page qu = None \<longrightarrow> page_of qu = 1) \<and>
   (query_limit qu = None \<longrightarrow> limit_of qu = 10) \<and>
   page_of qu \<noteq> 0 \<and> limit_of qu \<noteq> 0 \<and>
   (route r = GetProducts \<longrightarrow> handle u r ps = (get_products ps (req_query r), ps)) \<and>
   get_products ps qu =
     \<lparr>status = 200,
      json = ProductsJson (paginatedProducts ps qu)
        \<lparr>currentPage = page_of qu,
         totalPages = \<lceil>rat_of_nat (length (filteredProducts ps qu)) / rat_of_int (limit_of qu)\<rceil>,
         totalProducts = length (filteredProducts ps qu),
         hasNextPage = (page_of qu * limit_of qu < int (length (filteredProducts ps qu))),
         hasPrevPage = (1 < page_of qu)\<rparr>\<rparr> \<and>
   (0 \<le> (page_of qu - 1) * limit_of qu \<and> 0 \<le> page_of qu * limit_of qu \<longrightarrow>
      paginatedProducts ps qu =
        window (filteredProducts ps qu) ((page_of qu - 1) * limit_of qu) (page_of qu * limit_of qu)) \<and>
   (1 \<le> page_of qu \<and> 1 \<le> limit_of qu \<longrightarrow>
      0 \<le> (page_of qu - 1) * limit_of qu \<and> 0 \<le> page_of qu * limit_of qu) \<and>
   (page_of qu = 2 \<and> limit_of qu = 2 \<longrightarrow>
      paginatedProducts ps qu = take 2 (drop 2 (filteredProducts ps qu)) \<and>
      ((page_of qu * limit_of qu < int (length (filteredProducts ps qu))) \<longleftrightarrow>
         5 \<le> length (filteredProducts ps qu)) \<and>
      (length (filteredProducts ps qu) = 5 \<longrightarrow>
         paginatedProducts ps qu = [filteredProducts ps qu ! 2, filteredProducts ps qu ! 3]))"
proof (intro conjI impI)
  show "page_of qu \<noteq> 0" by (simp add: page_of_def parseInt_or_nonzero)
  show "limit_of qu \<noteq> 0" by (simp add: limit_of_def parseInt_or_nonzero)
  show "get_products ps qu =
     \<lparr>status = 200,
      json = ProductsJson (paginatedProducts ps qu)
        \<lparr>currentPage = page_of qu,
         totalPages = \<lceil>rat_of_nat (length (filteredProducts ps qu)) / rat_of_int (limit_of qu)\<rceil>,
         totalProducts = length (filteredProducts ps qu),
         hasNextPage = (page_of qu * limit_of qu < int (length (filteredProducts ps qu))),
         hasPrevPage = (1 < page_of qu)\<rparr>\<rparr>"
    by (simp add: get_products_def res_json_def endIndex_def)
next
  assume "query_page qu = None"
  then show "page_of qu = 1" by (simp add: page_of_def parseInt_or_absent)
next
  assume "query_limit qu = None"
  then show "limit_of qu = 10" by (simp add: limit_of_def parseInt_or_absent)
next
  assume "route r = GetProducts"
  then show "handle u r ps = (get_products ps (req_query r), ps)" by (simp add: handle_def)
next
  assume "0 \<le> (page_of qu - 1) * limit_of qu \<and> 0 \<le> page_of qu * limit_of qu"
  then show "paginatedProducts ps qu =
        window (filteredProducts ps qu) ((page_of qu - 1) * limit_of qu) (page_of qu * limit_of qu)"
    by (simp add: paginatedProducts_def startIndex_def endIndex_def slice_window)
next
  assume a: "1 \<le> page_of qu \<and> 1 \<le> limit_of qu"
  then show "0 \<le> (page_of qu - 1) * limit_of qu" by simp
  from a show "0 \<le> page_of qu * limit_of qu" by simp
next
  assume a: "page_of qu = 2 \<and> limit_of qu = 2"
  then show p: "paginatedProducts ps qu = take 2 (drop 2 (filteredProducts ps qu))"
    by (simp add: paginatedProducts_def startIndex_def endIndex_def slice_second_page_of_two)
  from a show "(page_of qu * limit_of qu < int (length (filteredProducts ps qu))) \<longleftrightarrow>
         5 \<le> length (filteredProducts ps qu)"
    by auto
  assume "length (filteredProducts ps qu) = 5"
  with p show "paginatedProducts ps qu = [filteredProducts ps qu ! 2, filteredProducts ps qu ! 3]"
    by (simp add: five_items_second_page)
qed

theorem pagination_window_witness:
  "query_page no_query = None \<and> query_limit no_query = None \<and>
   page_of no_query = 1 \<and> limit_of no_query = 10 \<and>
   route (req GetProducts None None
     (no_query\<lparr>query_page := Some ''2'', query_limit := Some ''2''\<rparr>)) = GetProducts \<and>
   page_of (no_query\<lparr>query_page := Some ''2'', query_limit := Some ''2''\<rparr>) = 2 \<and>
   limit_of (no_query\<lparr>query_page := Some ''2'', query_limit := Some ''2''\<rparr>) = 2 \<and>
   length (filteredProducts products
     (no_query\<lparr>query_page := Some ''2'', query_limit := Some ''2''\<rparr>)) = 5 \<and>
   handle [] (req GetProducts None None
     (no_query\<lparr>query_page := Some ''2'', query_limit := Some ''2''\<rparr>)) products =
     (\<lparr>status = 200,
       json = ProductsJson [products ! 2, products ! 3]
         \<lparr>currentPage = 2, totalPages = 3, totalProducts = 5, hasNextPage = True,
          hasPrevPage = True\<rparr>\<rparr>, products) \<and>
   window products 2 4 = [products ! 2, products ! 3]"
proof -
  let ?qu = "no_query\<lparr>query_page := Some ''2'', query_limit := Some ''2''\<rparr>"
  let ?r = "req GetProducts None None ?qu"
  have n: "query_page no_query = None" "query_limit no_query = None"
    by (simp_all add: no_query_def)
  from pagination_window [where qu = no_query] n
  have d: "page_of no_query = 1" "limit_of no_query = 10" by blast+
  have r: "route ?r = GetProducts" "req_query ?r = ?qu" by (simp_all add: req_def)
  have pl: "page_of ?qu = 2" "limit_of ?qu = 2" by code_simp+
  have f: "filteredProducts products ?qu = products" by code_simp
  have len: "length products = 5" by (simp add: products_def)
  have tp: "\<lceil>rat_of_nat 5 / rat_of_int 2\<rceil> = (3::int)" by code_simp
  note t = pagination_window [where qu = ?qu and ps = products and r = ?r and u = "[]"]
  from t r(1) have "handle [] ?r products = (get_products products (req_query ?r), products)"
    by blast
  then have h: "handle [] ?r products = (get_products products ?qu, products)"
    by (simp only: r(2))
  have f5: "length (filteredProducts products ?qu) = 5" by (simp only: f len)
  from t pl f5 have "paginatedProducts products ?qu =
      [filteredProducts products ?qu ! 2, filteredProducts products ?qu ! 3]"
    by blast
  then have p: "paginatedProducts products ?qu = [products ! 2, products ! 3]"
    by (simp only: f)
  have b: "0 \<le> (page_of ?qu - 1) * limit_of ?qu \<and> 0 \<le> page_of ?qu * limit_of ?qu"
    by (simp only: pl) simp
  from t b have "paginatedProducts products ?qu =
      window (filteredProducts products ?qu) ((page_of ?qu - 1) * limit_of ?qu) (page_of ?qu * limit_of ?qu)"
    by blast
  then have "paginatedProducts products ?qu = window products ((2 - 1) * 2) (2 * 2)"
    by (simp only: pl f)
  then have "paginatedProducts products ?qu = window products 2 4" by simp
  with p have w: "window products 2 4 = [products ! 2, products ! 3]" by simp
  from t have "get_products products ?qu =
     \<lparr>status = 200,
      json = ProductsJson (paginatedProducts products ?qu)
        \<lparr>currentPage = page_of ?qu,
         totalPages = \<lceil>rat_of_nat (length (filteredProducts products ?qu)) / rat_of_int (limit_of ?qu)\<rceil>,
         totalProducts = length (filteredProducts products ?qu),
         hasNextPage = (page_of ?qu * limit_of ?qu < int (length (filteredProducts products ?qu))),
         hasPrevPage = (1 < page_of ?qu)\<rparr>\<rparr>"
    by blast
  then have g: "get_products products ?qu =
     \<lparr>status = 200,
       json = ProductsJson [products ! 2, products ! 3]
         \<lparr>currentPage = 2, totalPages = 3, totalProducts = 5, hasNextPage = True,
          hasPrevPage = True\<rparr>\<rparr>"
    using tp by (simp only: p pl f len) simp
  from n d r(1) pl f len h g w show ?thesis by simp
qed

text \<open>
  Claim C2 as stated fails: with \<^verbatim>\<open>?limit=-2\<close> on the seed data the bounds are 0 and -2,
  no index lies in the interval from 0 to -2, and the answer holds the first three
  products, since a negative end of a slice counts from the end of the array.
\<close>

theorem negative_limit_counterexample:
  "startIndex (no_query\<lparr>query_limit := Some ''-2''\<rparr>) = 0 \<and>
   endIndex (no_query\<lparr>query_limit := Some ''-2''\<rparr>) = - 2 \<and>
   window (filteredProducts products (no_query\<lparr>query_limit := Some ''-2''\<rparr>)) 0 (- 2) = [] \<and>
   handle [] (req GetProducts None None (no_query\<lparr>query_limit := Some ''-2''\<rparr>)) products =
     (\<lparr>status = 200,
       json = ProductsJson [products ! 0, products ! 1, products ! 2]
         \<lparr>currentPage = 1, totalPages = - 2, totalProducts = 5, hasNextPage = True,
          hasPrevPage = False\<rparr>\<rparr>, products)"
proof -
  have "startIndex (no_query\<lparr>query_limit := Some ''-2''\<rparr>) = 0" by code_simp
  moreover have "endIndex (no_query\<lparr>query_limit := Some ''-2''\<rparr>) = - 2" by code_simp
  moreover have "window (filteredProducts products (no_query\<lparr>query_limit := Some ''-2''\<rparr>)) 0 (- 2) = []"
    by (simp add: window_def)
  moreover have "handle [] (req GetProducts None None (no_query\<lparr>query_limit := Some ''-2''\<rparr>)) products =
     (\<lparr>status = 200,
       json = ProductsJson [products ! 0, products ! 1, products ! 2]
         \<lparr>currentPage = 1, totalPages = - 2, totalProducts = 5, hasNextPage = True,
          hasPrevPage = False\<rparr>\<rparr>, products)"
    by code_simp
  ultimately show ?thesis by simp
qed

text \<open>
  Claim C3. A PUT with the secret and a body that passes validation, for an identifier
  that no product of the store has, answers 404 Not Found and leaves the store as it was.
\<close>

theorem put_missing_id_not_found:
  assumes "route r = PutProduct i" and "x_api_key r = Some ''demo-api-key-123''"
    and "validateProduct (req_body r) = Inr ()" and "i \<notin> set (map id_p ps)"
  shows "handle u r ps = (errorHandler (NotFoundError (not_found_message i)), ps) \<and>
         status (fst (handle u r ps)) = 404 \<and> snd (handle u r ps) = ps"
  using assms by (simp add: handle_def authMiddleware_ok [unfolded api_key_def] put_product_missing)

theorem put_missing_id_not_found_witness:
  "route (req (PutProduct ''99'') (Some ''demo-api-key-123'') (Some updated_laptop) no_query) = PutProduct ''99'' \<and>
   x_api_key (req (PutProduct ''99'') (Some ''demo-api-key-123'') (Some updated_laptop) no_query) = Some ''demo-api-key-123'' \<and>
   validateProduct (req_body (req (PutProduct ''99'') (Some ''demo-api-key-123'') (Some updated_laptop) no_query)) = Inr () \<and>
   ''99'' \<notin> set (map id_p products) \<and>
   handle ''uuid'' (req (PutProduct ''99'') (Some ''demo-api-key-123'') (Some updated_laptop) no_query) products =
     (errorHandler (NotFoundError (not_found_message ''99'')), products)"
proof -
  let ?r = "req (PutProduct ''99'') (Some ''demo-api-key-123'') (Some updated_laptop) no_query"
  have 1: "route ?r = PutProduct ''99''" by (simp add: req_def)
  have 2: "x_api_key ?r = Some ''demo-api-key-123''" by (simp add: req_def)
  have 3: "validateProduct (req_body ?r) = Inr ()" by code_simp
  have 4: "''99'' \<notin> set (map id_p products)" by (simp add: products_def)
  from put_missing_id_not_found [OF 1 2 3 4, of "''uuid''"] 1 2 3 4 show ?thesis by simp
qed

text \<open>
  Claim C4, amended. The list of all products filters the store by category first, when
  the parameter \<open>category\<close> is present and not empty, keeping the products whose category
  equals it up to letter case, and then by stock, when the parameter \<open>inStock\<close> is present,
  keeping the products whose flag is true for the string \<^verbatim>\<open>true\<close> and false for any other
  string. An absent or empty \<open>category\<close> filters nothing. With both parameters the filtered
  list is the products that meet both criteria, and its products are among those that
  either parameter alone selects. Every product of the returned page is in the filtered
  list, so it meets the criteria of the parameters given. The returned page is among the
  products of the page that one parameter alone returns whenever that page is the first
  and holds the whole of its filtered list.
\<close>

theorem filters_category_then_inStock:
  "filteredProducts ps qu = filter_inStock (query_inStock qu) (filter_category (query_category qu) ps) \<and>
   (query_category qu = Some c \<and> c \<noteq> [] \<longrightarrow>
      filter_category (query_category qu) ps = filter (\<lambda>p. equal_ci (category p) c) ps \<and>
      (\<forall>p \<in> set (paginatedProducts ps qu). equal_ci (category p) c)) \<and>
   (query_category qu = None \<or> query_category qu = Some [] \<longrightarrow>
      filter_category (query_category qu) ps = ps) \<and>
   (query_inStock qu = Some v \<longrightarrow>
      (\<forall>p \<in> set (paginatedProducts ps qu). inStock p = (v = ''true''))) \<and>
   (query_category qu = Some c \<and> c \<noteq> [] \<and> query_inStock qu = Some v \<longrightarrow>
      filteredProducts ps qu =
        filter (\<lambda>p. equal_ci (category p) c \<and> inStock p = (v = ''true'')) ps) \<and>
   set (filteredProducts ps qu) \<subseteq> set (filteredProducts ps (qu\<lparr>query_inStock := None\<rparr>)) \<and>
   set (filteredProducts ps qu) \<subseteq> set (filteredProducts ps (qu\<lparr>query_category := None\<rparr>)) \<and>
   set (paginatedProducts ps qu) \<subseteq> set (filteredProducts ps qu) \<and>
   (page_of qu = 1 \<and>
      int (length (filteredProducts ps (qu\<lparr>query_inStock := None\<rparr>))) \<le> limit_of qu \<longrightarrow>
      set (paginatedProducts ps qu) \<subseteq> set (paginatedProducts ps (qu\<lparr>query_inStock := None\<rparr>))) \<and>
   (page_of qu = 1 \<and>
      int (length (filteredProducts ps (qu\<lparr>query_category := None\<rparr>))) \<le> limit_of qu \<longrightarrow>
      set (paginatedProducts ps qu) \<subseteq> set (paginatedProducts ps (qu\<lparr>query_category := None\<rparr>)))"
proof (intro conjI impI)
  show "filteredProducts ps qu =
      filter_inStock (query_inStock qu) (filter_category (query_category qu) ps)"
    by (simp add: filteredProducts_def)
  show pg: "set (paginatedProducts ps qu) \<subseteq> set (filteredProducts ps qu)"
    by (simp add: paginatedProducts_def set_slice_subset)
  show fi: "set (filteredProducts ps qu) \<subseteq> set (filteredProducts ps (qu\<lparr>query_inStock := None\<rparr>))"
    by (simp add: filteredProducts_def filter_inStock_def set_filter_inStock [unfolded filter_inStock_def])
  show fc: "set (filteredProducts ps qu) \<subseteq> set (filteredProducts ps (qu\<lparr>query_category := None\<rparr>))"
    by (simp add: filteredProducts_def filter_category_none set_filter_inStock_mono
        set_filter_category)
  {
    assume "page_of qu = 1 \<and>
      int (length (filteredProducts ps (qu\<lparr>query_inStock := None\<rparr>))) \<le> limit_of qu"
    then have "paginatedProducts ps (qu\<lparr>query_inStock := None\<rparr>) =
        filteredProducts ps (qu\<lparr>query_inStock := None\<rparr>)"
      by (intro first_page_whole) (simp_all add: page_of_filters)
    with pg fi
    show "set (paginatedProducts ps qu) \<subseteq> set (paginatedProducts ps (qu\<lparr>query_inStock := None\<rparr>))"
      by simp
  }
  {
    assume "page_of qu = 1 \<and>
      int (length (filteredProducts ps (qu\<lparr>query_category := None\<rparr>))) \<le> limit_of qu"
    then have "paginatedProducts ps (qu\<lparr>query_category := None\<rparr>) =
        filteredProducts ps (qu\<lparr>query_category := None\<rparr>)"
      by (intro first_page_whole) (simp_all add: page_of_filters)
    with pg fc
    show "set (paginatedProducts ps qu) \<subseteq> set (paginatedProducts ps (qu\<lparr>query_category := None\<rparr>))"
      by simp
  }
  {
    assume a: "query_category qu = Some c \<and> c \<noteq> []"
    then show "filter_category (query_category qu) ps = filter (\<lambda>p. equal_ci (category p) c) ps"
      by (simp add: filter_category_Some)
    with set_filter_inStock [of "query_inStock qu" "filter_category (query_category qu) ps"]
    have "\<forall>p \<in> set (filteredProducts ps qu). equal_ci (category p) c"
      by (auto simp: filteredProducts_def)
    with pg show "\<forall>p \<in> set (paginatedProducts ps qu). equal_ci (category p) c"
      by blast
  }
  {
    assume "query_category qu = None \<or> query_category qu = Some []"
    then show "filter_category (query_category qu) ps = ps"
      by (rule filter_category_none)
  }
  {
    assume "query_inStock qu = Some v"
    then have "\<forall>p \<in> set (filteredProducts ps qu). inStock p = (v = ''true'')"
      by (simp add: filteredProducts_def filter_inStock_def)
    with pg show "\<forall>p \<in> set (paginatedProducts ps qu). inStock p = (v = ''true'')"
      by blast
  }
  {
    assume "query_category qu = Some c \<and> c \<noteq> [] \<and> query_inStock qu = Some v"
    then show "filteredProducts ps qu =
        filter (\<lambda>p. equal_ci (category p) c \<and> inStock p = (v = ''true'')) ps"
      by (simp add: filteredProducts_both)
  }
qed

theorem filters_category_then_inStock_witness:
  "query_category (no_query\<lparr>query_category := Some ''ELECTRONICS'', query_inStock := Some ''true''\<rparr>) =
     Some ''ELECTRONICS'' \<and> ''ELECTRONICS'' \<noteq> [] \<and>
   query_inStock (no_query\<lparr>query_category := Some ''ELECTRONICS'', query_inStock := Some ''true''\<rparr>) =
     Some ''true'' \<and>
   paginatedProducts products
     (no_query\<lparr>query_category := Some ''ELECTRONICS'', query_inStock := Some ''true''\<rparr>) =
     [products ! 0, products ! 1, products ! 3] \<and>
   list_all (\<lambda>p. equal_ci (category p) ''ELECTRONICS'' \<and> inStock p)
     (paginatedProducts products
       (no_query\<lparr>query_category := Some ''ELECTRONICS'', query_inStock := Some ''true''\<rparr>)) \<and>
   query_category (no_query\<lparr>query_category := Some []\<rparr>) = Some [] \<and>
   filter_category (query_category (no_query\<lparr>query_category := Some []\<rparr>)) products = products \<and>
   page_of (no_query\<lparr>query_category := Some ''ELECTRONICS'', query_inStock := Some ''true''\<rparr>) = 1 \<and>
   limit_of (no_query\<lparr>query_category := Some ''ELECTRONICS'', query_inStock := Some ''true''\<rparr>) = 10 \<and>
   length (filteredProducts products
     (no_query\<lparr>query_category := Some ''ELECTRONICS'', query_inStock := None\<rparr>)) = 3 \<and>
   length (filteredProducts products
     (no_query\<lparr>query_category := None, query_inStock := Some ''true''\<rparr>)) = 4 \<and>
   set (paginatedProducts products
     (no_query\<lparr>query_category := Some ''ELECTRONICS'', query_inStock := Some ''true''\<rparr>)) \<subseteq>
     set (paginatedProducts products
       (no_query\<lparr>query_category := Some ''ELECTRONICS'', query_inStock := None\<rparr>)) \<and>
   set (paginatedProducts products
     (no_query\<lparr>query_category := Some ''ELECTRONICS'', query_inStock := Some ''true''\<rparr>)) \<subseteq>
     set (paginatedProducts products
       (no_query\<lparr>query_category := None, query_inStock := Some ''true''\<rparr>))"
proof -
  let ?qu = "no_query\<lparr>query_category := Some ''ELECTRONICS'', query_inStock := Some ''true''\<rparr>"
  let ?qe = "no_query\<lparr>query_category := Some []\<rparr>"
  have q: "query_category ?qu = Some ''ELECTRONICS''" "''ELECTRONICS'' \<noteq> []"
    "query_inStock ?qu = Some ''true''" "query_category ?qe = Some []"
    by simp_all
  have e: "paginatedProducts products ?qu = [products ! 0, products ! 1, products ! 3]"
    by code_simp
  note t = filters_category_then_inStock [where ps = products and qu = ?qu
      and c = "''ELECTRONICS''" and v = "''true''"]
  from t q(1,2) have 1: "\<forall>p \<in> set (paginatedProducts products ?qu). equal_ci (category p) ''ELECTRONICS''"
    by blast
  from t q(3) have 2: "\<forall>p \<in> set (paginatedProducts products ?qu). inStock p = (''true'' = ''true'')"
    by blast
  from 1 2 have l: "list_all (\<lambda>p. equal_ci (category p) ''ELECTRONICS'' \<and> inStock p)
     (paginatedProducts products ?qu)"
    by (simp add: list_all_iff)
  from filters_category_then_inStock [where ps = products and qu = ?qe] q(4)
  have 3: "filter_category (query_category ?qe) products = products"
    by blast
  let ?qc = "no_query\<lparr>query_category := Some ''ELECTRONICS'', query_inStock := None\<rparr>"
  let ?qs = "no_query\<lparr>query_category := None, query_inStock := Some ''true''\<rparr>"
  have u: "?qu\<lparr>query_inStock := None\<rparr> = ?qc" "?qu\<lparr>query_category := None\<rparr> = ?qs"
    by simp_all
  have pl: "page_of ?qu = 1" "limit_of ?qu = 10" by code_simp+
  have lc: "length (filteredProducts products ?qc) = 3" by code_simp
  have ls: "length (filteredProducts products ?qs) = 4" by code_simp
  have hc: "page_of ?qu = 1 \<and>
      int (length (filteredProducts products (?qu\<lparr>query_inStock := None\<rparr>))) \<le> limit_of ?qu"
    by (simp only: u pl lc) simp
  have hs: "page_of ?qu = 1 \<and>
      int (length (filteredProducts products (?qu\<lparr>query_category := None\<rparr>))) \<le> limit_of ?qu"
    by (simp only: u pl ls) simp
  from t hc have "set (paginatedProducts products ?qu) \<subseteq>
      set (paginatedProducts products (?qu\<lparr>query_inStock := None\<rparr>))"
    by blast
  then have 4: "set (paginatedProducts products ?qu) \<subseteq> set (paginatedProducts products ?qc)"
    by (simp only: u)
  from t hs have "set (paginatedProducts products ?qu) \<subseteq>
      set (paginatedProducts products (?qu\<lparr>query_category := None\<rparr>))"
    by blast
  then have 5: "set (paginatedProducts products ?qu) \<subseteq> set (paginatedProducts products ?qs)"
    by (simp only: u)
  from q e l 3 pl lc ls 4 5 show ?thesis by blast
qed

text \<open>
  Claim C4 as stated fails twice. With \<^verbatim>\<open>?category=\<close> the parameter is the empty string, no
  filter is applied, and the first product of the seed data, of category
  \<^verbatim>\<open>electronics\<close>, is returned although its category is not the query value up to case.
  With \<^verbatim>\<open>?category=furniture&inStock=true&limit=1\<close> the answer holds the fifth product of
  the seed data, which the answer to \<^verbatim>\<open>?inStock=true&limit=1\<close>, the first product, does not
  hold: what both filters return is not a subset of what one filter returns.
\<close>

theorem category_filter_counterexample:
  "query_category (no_query\<lparr>query_category := Some []\<rparr>) = Some [] \<and>
   handle [] (req GetProducts None None (no_query\<lparr>query_category := Some []\<rparr>)) products =
     (\<lparr>status = 200,
       json = ProductsJson products
         \<lparr>currentPage = 1, totalPages = 1, totalProducts = 5, hasNextPage = False,
          hasPrevPage = False\<rparr>\<rparr>, products) \<and>
   category (products ! 0) = ''electronics'' \<and>
   \<not> equal_ci (category (products ! 0)) [] \<and>
   handle [] (req GetProducts None None
       (no_query\<lparr>query_category := Some ''furniture'', query_inStock := Some ''true'',
          query_limit := Some ''1''\<rparr>)) products =
     (\<lparr>status = 200,
       json = ProductsJson [products ! 4]
         \<lparr>currentPage = 1, totalPages = 1, totalProducts = 1, hasNextPage = False,
          hasPrevPage = False\<rparr>\<rparr>, products) \<and>
   handle [] (req GetProducts None None
       (no_query\<lparr>query_inStock := Some ''true'', query_limit := Some ''1''\<rparr>)) products =
     (\<lparr>status = 200,
       json = ProductsJson [products ! 0]
         \<lparr>currentPage = 1, totalPages = 4, totalProducts = 4, hasNextPage = True,
          hasPrevPage = False\<rparr>\<rparr>, products) \<and>
   \<not> set [products ! 4] \<subseteq> set [products ! 0]"
proof -
  have "handle [] (req GetProducts None None (no_query\<lparr>query_category := Some []\<rparr>)) products =
     (\<lparr>status = 200,
       json = ProductsJson products
         \<lparr>currentPage = 1, totalPages = 1, totalProducts = 5, hasNextPage = False,
          hasPrevPage = False\<rparr>\<rparr>, products)"
    by code_simp
  moreover have "category (products ! 0) = ''electronics''" by (simp add: products_def)
  moreover have "\<not> equal_ci (category (products ! 0)) []"
    by (simp add: products_def equal_ci_def toLowerCase_def)
  moreover have "handle [] (req GetProducts None None
       (no_query\<lparr>query_category := Some ''furniture'', query_inStock := Some ''true'',
          query_limit := Some ''1''\<rparr>)) products =
     (\<lparr>status = 200,
       json = ProductsJson [products ! 4]
         \<lparr>currentPage = 1, totalPages = 1, totalProducts = 1, hasNextPage = False,
          hasPrevPage = False\<rparr>\<rparr>, products)"
    by code_simp
  moreover have "handle [] (req GetProducts None None
       (no_query\<lparr>query_inStock := Some ''true'', query_limit := Some ''1''\<rparr>)) products =
     (\<lparr>status = 200,
       json = ProductsJson [products ! 0]
         \<lparr>currentPage = 1, totalPages = 4, totalProducts = 4, hasNextPage = True,
          hasPrevPage = False\<rparr>\<rparr>, products)"
    by code_simp
  moreover have "\<not> set [products ! 4] \<subseteq> set [products ! 0]"
    by (simp add: products_def)
  ultimately show ?thesis by simp
qed

text \<open>
  Claim C5, amended. On a parsed body the validator checks five rules in the order name,
  description, price, category, inStock: the name, the description and the category are
  strings with at least one character that is not white space, the price is a number that
  is not negative, inStock is a boolean. It answers with the message of the first rule
  that fails, and with that one only; the five messages differ. A body is accepted exactly
  when the five rules hold. Without a parsed body the validator throws, which the error
  handler answers with 500.
\<close>

theorem validateProduct_first_failing_rule:
  "validateProduct (Some b) =
     (case first_failure
        [(nonblank_string (body_name b), name_message),
         (nonblank_string (body_description b), description_message),
         (nonnegative_number (body_price b), price_message),
         (nonblank_string (body_category b), category_message),
         (is_boolean (body_inStock b), inStock_message)] of
        None \<Rightarrow> Inr ()
      | Some m \<Rightarrow> Inl (ValidationError m)) \<and>
   (validateProduct (Some b) = Inr () \<longleftrightarrow>
      nonblank_string (body_name b) \<and> nonblank_string (body_description b) \<and>
      nonnegative_number (body_price b) \<and> nonblank_string (body_category b) \<and>
      is_boolean (body_inStock b)) \<and>
   distinct [name_message, description_message, price_message, category_message, inStock_message] \<and>
   validateProduct None = Inl OtherError \<and> status (errorHandler OtherError) = 500"
  using validateProduct_first_failure [of b] validateProduct_Inr_iff [of b] messages_distinct
    validateProduct_None
  by simp

theorem validateProduct_first_failing_rule_witness:
  "\<not> nonblank_string (body_description (gaming_mouse\<lparr>body_description := JNull, body_price := JNum (- 1)\<rparr>)) \<and>
   \<not> nonnegative_number (body_price (gaming_mouse\<lparr>body_description := JNull, body_price := JNum (- 1)\<rparr>)) \<and>
   validateProduct (Some (gaming_mouse\<lparr>body_description := JNull, body_price := JNum (- 1)\<rparr>)) =
     Inl (ValidationError description_message) \<and>
   validateProduct (Some gaming_mouse) = Inr () \<and>
   \<not> nonblank_string (body_name (gaming_mouse\<lparr>body_name := JStr [CHR 0xA0, CHR 0x09]\<rparr>)) \<and>
   validateProduct (Some (gaming_mouse\<lparr>body_name := JStr [CHR 0xA0, CHR 0x09]\<rparr>)) =
     Inl (ValidationError name_message)"
proof -
  let ?b = "gaming_mouse\<lparr>body_description := JNull, body_price := JNum (- 1)\<rparr>"
  let ?n = "gaming_mouse\<lparr>body_name := JStr [CHR 0xA0, CHR 0x09]\<rparr>"
  have 1: "nonblank_string (body_name ?b)"
    by (simp add: gaming_mouse_def nonblank_string_def is_ws_def)
  have 2: "\<not> nonblank_string (body_description ?b)"
    by (simp add: nonblank_string_def)
  have 3: "\<not> nonnegative_number (body_price ?b)"
    by (simp add: nonnegative_number_def)
  have 4: "\<not> nonblank_string (body_name ?n)"
    by (simp add: nonblank_string_def is_ws_def)
  have g: "nonblank_string (body_name gaming_mouse)" "nonblank_string (body_description gaming_mouse)"
    "nonnegative_number (body_price gaming_mouse)" "nonblank_string (body_category gaming_mouse)"
    "is_boolean (body_inStock gaming_mouse)"
    by (simp_all add: gaming_mouse_def nonblank_string_def nonnegative_number_def is_boolean_def
        is_ws_def)
  from validateProduct_first_failing_rule [of ?b] 1 2
  have "validateProduct (Some ?b) = Inl (ValidationError description_message)" by simp
  moreover from validateProduct_first_failing_rule [of gaming_mouse] g
  have "validateProduct (Some gaming_mouse) = Inr ()" by blast
  moreover from validateProduct_first_failing_rule [of ?n] 4
  have "validateProduct (Some ?n) = Inl (ValidationError name_message)" by simp
  ultimately show ?thesis using 2 3 4 by blast
qed

text \<open>
  Claim C5 as stated fails: in the body \<open>blank_mouse\<close> the name is present and is the
  non-empty string of three spaces, and the four other rules hold, yet the validator
  rejects it with the message on the name.
\<close>

theorem validateProduct_nonempty_counterexample:
  "nonempty_string (body_name blank_mouse) \<and> nonempty_string (body_description blank_mouse) \<and>
   nonnegative_number (body_price blank_mouse) \<and> nonempty_string (body_category blank_mouse) \<and>
   is_boolean (body_inStock blank_mouse) \<and>
   body_name blank_mouse = JStr ''   '' \<and>
   validateProduct (Some blank_mouse) = Inl (ValidationError name_message)"
  by (simp add: blank_mouse_def nonempty_string_def nonnegative_number_def is_boolean_def
      validateProduct_def not_nonempty_string_def trim_def is_ws_def)

text \<open>
  Claim C6, amended. The search is answered 400 exactly when the parameter \<open>q\<close> is
  absent or is the empty string. Otherwise it is answered 200 with the query, the products
  of the store, in store order, whose name or description contains \<open>q\<close> as a substring,
  letter case apart, and their number. The store is not changed.
\<close>

theorem search_substring_or_400:
  "(status (respond (search_products ps qu)) = 400 \<longleftrightarrow>
      query_q qu = None \<or> query_q qu = Some []) \<and>
   (query_q qu = Some qs \<and> qs \<noteq> [] \<longrightarrow>
      respond (search_products ps qu) =
        \<lparr>status = 200,
         json = SearchJson qs
           (filter (\<lambda>p. contains_ci (name p) qs \<or> contains_ci (description p) qs) ps)
           (length (filter (\<lambda>p. contains_ci (name p) qs \<or> contains_ci (description p) qs) ps))\<rparr>) \<and>
   (route r = SearchProducts \<longrightarrow>
      handle u r ps = (respond (search_products ps (req_query r)), ps))"
proof (intro conjI impI)
  show "status (respond (search_products ps qu)) = 400 \<longleftrightarrow>
      query_q qu = None \<or> query_q qu = Some []"
    by (auto simp: search_products_def respond_def res_json_def split: option.splits)
next
  assume "query_q qu = Some qs \<and> qs \<noteq> []"
  then show "respond (search_products ps qu) =
        \<lparr>status = 200,
         json = SearchJson qs
           (filter (\<lambda>p. contains_ci (name p) qs \<or> contains_ci (description p) qs) ps)
           (length (filter (\<lambda>p. contains_ci (name p) qs \<or> contains_ci (description p) qs) ps))\<rparr>"
    by (simp add: search_products_def respond_def res_json_def searchResults_contains_ci)
next
  assume "route r = SearchProducts"
  then show "handle u r ps = (respond (search_products ps (req_query r)), ps)"
    by (simp add: handle_def)
qed

theorem search_substring_or_400_witness:
  "query_q (no_query\<lparr>query_q := Some ''LAPTOP''\<rparr>) = Some ''LAPTOP'' \<and> ''LAPTOP'' \<noteq> [] \<and>
   route (req SearchProducts None None (no_query\<lparr>query_q := Some ''LAPTOP''\<rparr>)) = SearchProducts \<and>
   handle [] (req SearchProducts None None (no_query\<lparr>query_q := Some ''LAPTOP''\<rparr>)) products =
     (\<lparr>status = 200, json = SearchJson ''LAPTOP'' [products ! 0] 1\<rparr>, products) \<and>
   filter (\<lambda>p. contains_ci (name p) ''LAPTOP'' \<or> contains_ci (description p) ''LAPTOP'') products =
     [products ! 0]"
proof -
  let ?qu = "no_query\<lparr>query_q := Some ''LAPTOP''\<rparr>"
  let ?r = "req SearchProducts None None ?qu"
  have q: "query_q ?qu = Some ''LAPTOP''" "''LAPTOP'' \<noteq> []" by simp_all
  have r: "route ?r = SearchProducts" "req_query ?r = ?qu" by (simp_all add: req_def)
  have e: "respond (search_products products ?qu) =
     \<lparr>status = 200, json = SearchJson ''LAPTOP'' [products ! 0] 1\<rparr>"
    by code_simp
  note t = search_substring_or_400 [where ps = products and qu = ?qu and qs = "''LAPTOP''"
      and r = ?r and u = "[]"]
  from t r have h: "handle [] ?r products = (respond (search_products products ?qu), products)"
    by simp
  from t q have "respond (search_products products ?qu) =
        \<lparr>status = 200,
         json = SearchJson ''LAPTOP''
           (filter (\<lambda>p. contains_ci (name p) ''LAPTOP'' \<or> contains_ci (description p) ''LAPTOP'') products)
           (length (filter (\<lambda>p. contains_ci (name p) ''LAPTOP'' \<or> contains_ci (description p) ''LAPTOP'') products))\<rparr>"
    by blast
  with e have f: "filter (\<lambda>p. contains_ci (name p) ''LAPTOP'' \<or> contains_ci (description p) ''LAPTOP'') products =
     [products ! 0]"
    by simp
  from q r(1) h e f show ?thesis by simp
qed

text \<open>
  Claim C6 as stated fails: with \<^verbatim>\<open>?q=\<close> the parameter is present, as the empty string,
  and the search is answered 400.
\<close>

theorem search_empty_query_counterexample:
  "query_q (no_query\<lparr>query_q := Some []\<rparr>) \<noteq> None \<and>
   handle [] (req SearchProducts None None (no_query\<lparr>query_q := Some []\<rparr>)) products =
     (\<lparr>status = 400, json = ErrorJson ''Validation Error'' search_message 400\<rparr>, products)"
  by (simp add: handle_def req_def search_products_def respond_def)

text \<open>
  Claim C7, amended. An update answered 200 had a parsed body and replaces, in the first
  product that has the identifier of the route, the name, description and category by the
  supplied strings without their leading and trailing white space, and the price and stock
  flag by the supplied values; the identifier of that product, the length of the store and
  every product at another position stay as they were. With the secret, an update whose
  body omits one of the five fields is answered 400, an update without a parsed body is
  answered 500, and neither changes anything.
\<close>

theorem put_replaces_all_fields:
  "(route r = PutProduct i \<and> status (fst (handle u r ps)) = 200 \<longrightarrow>
      (\<exists>k b. req_body r = Some b \<and> k < length ps \<and> id_p (ps ! k) = i \<and>
         length (snd (handle u r ps)) = length ps \<and>
         id_p (snd (handle u r ps) ! k) = i \<and>
         stores_trimmed b (snd (handle u r ps) ! k) \<and>
         (\<forall>j < length ps. j \<noteq> k \<longrightarrow> snd (handle u r ps) ! j = ps ! j))) \<and>
   (route r' = PutProduct i' \<and> x_api_key r' = Some ''demo-api-key-123'' \<and>
      req_body r' = Some b' \<and>
      (body_name b' = JUndefined \<or> body_description b' = JUndefined \<or>
       body_price b' = JUndefined \<or> body_category b' = JUndefined \<or>
       body_inStock b' = JUndefined) \<longrightarrow>
      status (fst (handle u r' ps)) = 400 \<and> snd (handle u r' ps) = ps) \<and>
   (route e = PutProduct j \<and> x_api_key e = Some ''demo-api-key-123'' \<and> req_body e = None \<longrightarrow>
      status (fst (handle u e ps)) = 500 \<and> snd (handle u e ps) = ps)"
proof (intro conjI impI)
  assume "route r = PutProduct i \<and> status (fst (handle u r ps)) = 200"
  then have "route r = PutProduct i" "status (fst (handle u r ps)) = 200" by simp_all
  then obtain b k p where k: "k < length ps" "id_p (ps ! k) = i"
    and h: "handle u r ps = (res_json (MessageJson ''Product updated successfully'' p), ps[k := p])"
    and p: "id_p p = i" "req_body r = Some b" "stores_trimmed b p"
    by (rule handle_put_updated)
  from k h p have "req_body r = Some b \<and> k < length ps \<and> id_p (ps ! k) = i \<and>
         length (snd (handle u r ps)) = length ps \<and>
         id_p (snd (handle u r ps) ! k) = i \<and>
         stores_trimmed b (snd (handle u r ps) ! k) \<and>
         (\<forall>j < length ps. j \<noteq> k \<longrightarrow> snd (handle u r ps) ! j = ps ! j)"
    by simp
  then show "\<exists>k b. req_body r = Some b \<and> k < length ps \<and> id_p (ps ! k) = i \<and>
         length (snd (handle u r ps)) = length ps \<and>
         id_p (snd (handle u r ps) ! k) = i \<and>
         stores_trimmed b (snd (handle u r ps) ! k) \<and>
         (\<forall>j < length ps. j \<noteq> k \<longrightarrow> snd (handle u r ps) ! j = ps ! j)"
    by blast
next
  assume a: "route r' = PutProduct i' \<and> x_api_key r' = Some ''demo-api-key-123'' \<and>
      req_body r' = Some b' \<and>
      (body_name b' = JUndefined \<or> body_description b' = JUndefined \<or>
       body_price b' = JUndefined \<or> body_category b' = JUndefined \<or>
       body_inStock b' = JUndefined)"
  then obtain m where m: "validateProduct (req_body r') = Inl (ValidationError m)"
    using omitted_field_rejected [of b'] by auto
  from a have auth: "authMiddleware (x_api_key r') = Inr ()"
    by (simp add: authMiddleware_Inr_iff api_key_def)
  from a m auth show "status (fst (handle u r' ps)) = 400" by (simp add: handle_def)
  from a m auth show "snd (handle u r' ps) = ps" by (simp add: handle_def)
next
  assume a: "route e = PutProduct j \<and> x_api_key e = Some ''demo-api-key-123'' \<and> req_body e = None"
  then have auth: "authMiddleware (x_api_key e) = Inr ()"
    by (simp add: authMiddleware_Inr_iff api_key_def)
  from a auth show "status (fst (handle u e ps)) = 500"
    by (simp add: handle_def validateProduct_None)
  from a auth show "snd (handle u e ps) = ps"
    by (simp add: handle_def validateProduct_None)
qed

theorem put_replaces_all_fields_witness:
  "route (req (PutProduct ''3'') (Some ''demo-api-key-123'') (Some updated_laptop) no_query) = PutProduct ''3'' \<and>
   status (fst (handle [] (req (PutProduct ''3'') (Some ''demo-api-key-123'') (Some updated_laptop) no_query)
      products)) = 200 \<and>
   (\<exists>k. id_p (products ! k) = ''3'' \<and>
        stores_trimmed updated_laptop
          (snd (handle [] (req (PutProduct ''3'') (Some ''demo-api-key-123'') (Some updated_laptop) no_query)
             products) ! k)) \<and>
   route (req (PutProduct ''3'') (Some ''demo-api-key-123'')
      (Some (updated_laptop\<lparr>body_price := JUndefined\<rparr>)) no_query) = PutProduct ''3'' \<and>
   body_price (updated_laptop\<lparr>body_price := JUndefined\<rparr>) = JUndefined \<and>
   status (fst (handle [] (req (PutProduct ''3'') (Some ''demo-api-key-123'')
      (Some (updated_laptop\<lparr>body_price := JUndefined\<rparr>)) no_query) products)) = 400 \<and>
   snd (handle [] (req (PutProduct ''3'') (Some ''demo-api-key-123'')
      (Some (updated_laptop\<lparr>body_price := JUndefined\<rparr>)) no_query) products) = products \<and>
   req_body (req (PutProduct ''3'') (Some ''demo-api-key-123'') None no_query) = None \<and>
   status (fst (handle [] (req (PutProduct ''3'') (Some ''demo-api-key-123'') None no_query)
      products)) = 500 \<and>
   snd (handle [] (req (PutProduct ''3'') (Some ''demo-api-key-123'') None no_query) products) =
     products"
proof -
  let ?r = "req (PutProduct ''3'') (Some ''demo-api-key-123'') (Some updated_laptop) no_query"
  let ?b' = "updated_laptop\<lparr>body_price := JUndefined\<rparr>"
  let ?r' = "req (PutProduct ''3'') (Some ''demo-api-key-123'') (Some ?b') no_query"
  let ?e = "req (PutProduct ''3'') (Some ''demo-api-key-123'') None no_query"
  have r: "route ?r = PutProduct ''3''" "req_body ?r = Some updated_laptop"
    by (simp_all add: req_def)
  have r': "route ?r' = PutProduct ''3''" "x_api_key ?r' = Some ''demo-api-key-123''"
    "req_body ?r' = Some ?b'" "body_price ?b' = JUndefined"
    by (simp_all add: req_def)
  have e: "route ?e = PutProduct ''3''" "x_api_key ?e = Some ''demo-api-key-123''"
    "req_body ?e = None"
    by (simp_all add: req_def)
  have s: "status (fst (handle [] ?r products)) = 200" by code_simp
  note t = put_replaces_all_fields [where r = ?r and i = "''3''" and u = "[]" and ps = products
      and r' = ?r' and i' = "''3''" and b' = ?b' and e = ?e and j = "''3''"]
  from t r(1) s have "\<exists>k b. req_body ?r = Some b \<and> k < length products \<and>
         id_p (products ! k) = ''3'' \<and>
         length (snd (handle [] ?r products)) = length products \<and>
         id_p (snd (handle [] ?r products) ! k) = ''3'' \<and>
         stores_trimmed b (snd (handle [] ?r products) ! k) \<and>
         (\<forall>j < length products. j \<noteq> k \<longrightarrow> snd (handle [] ?r products) ! j = products ! j)"
    by blast
  then obtain k b where "req_body ?r = Some b" "id_p (products ! k) = ''3''"
      "stores_trimmed b (snd (handle [] ?r products) ! k)"
    by blast
  with r(2) have c1: "\<exists>k. id_p (products ! k) = ''3'' \<and>
        stores_trimmed updated_laptop (snd (handle [] ?r products) ! k)"
    by auto
  from t r' have c2: "status (fst (handle [] ?r' products)) = 400 \<and> snd (handle [] ?r' products) = products"
    by blast
  from t e have c3: "status (fst (handle [] ?e products)) = 500 \<and> snd (handle [] ?e products) = products"
    by blast
  from r(1) s c1 r'(1,4) c2 e(3) c3 show ?thesis by blast
qed

text \<open>
  Claim C7 as stated fails: the update of product 3 with a name that starts with a
  no-break space and a space and ends with a space is answered 200 and stores the name
  \<^verbatim>\<open>"Gaming Mouse"\<close>, not the supplied value.
\<close>

theorem put_supplied_values_counterexample:
  "status (fst (handle [] (req (PutProduct ''3'') (Some ''demo-api-key-123'') (Some padded_mouse) no_query)
      products)) = 200 \<and>
   body_name padded_mouse = JStr (CHR 0xA0 # '' Gaming Mouse '') \<and>
   name (snd (handle [] (req (PutProduct ''3'') (Some ''demo-api-key-123'') (Some padded_mouse) no_query)
      products) ! 2) = ''Gaming Mouse'' \<and>
   JStr (name (snd (handle [] (req (PutProduct ''3'') (Some ''demo-api-key-123'') (Some padded_mouse) no_query)
      products) ! 2)) \<noteq> body_name padded_mouse"
  by code_simp

text \<open>
  Claim C8. On the seed data the statistics are the ones of the claim. After a create
  with the category \<^verbatim>\<open>constructor\<close>, the entry of that category in the statistics is not
  the count 1 but a string: the key is read through \<^verbatim>\<open>Object.prototype\<close>, whose
  \<^verbatim>\<open>constructor\<close> is a function, so \<^verbatim>\<open>|| 0\<close> keeps it and \<^verbatim>\<open>+ 1\<close> concatenates.
\<close>

theorem stats_constructor_category:
  "serve products
     [(''3b241101-e2bb-4255-8caf-4136c566a962'',
       req PostProduct (Some ''demo-api-key-123'')
         (Some (gaming_mouse\<lparr>body_category := JStr ''constructor''\<rparr>)) no_query)] =
     products @
       [\<lparr>id_p = ''3b241101-e2bb-4255-8caf-4136c566a962'', name = ''Gaming Mouse'',
         description = ''High-precision gaming mouse with RGB lighting'', price = 75,
         category = ''constructor'', inStock = True\<rparr>] \<and>
   products_stats (serve products
     [(''3b241101-e2bb-4255-8caf-4136c566a962'',
       req PostProduct (Some ''demo-api-key-123'')
         (Some (gaming_mouse\<lparr>body_category := JStr ''constructor''\<rparr>)) no_query)]) =
     \<lparr>status = 200,
      json = StatsJson
        \<lparr>stats_totalProducts = 6, stats_inStock = 5, stats_outOfStock = 1,
         stats_categories =
           [(''electronics'', CNum 3), (''kitchen'', CNum 1), (''furniture'', CNum 1),
            (''constructor'', CStr ''function Object() { [native code] }1'')],
         stats_averagePrice = 875 / 2, stats_min = 50, stats_max = 1200\<rparr>\<rparr> \<and>
   products_stats products =
     \<lparr>status = 200,
      json = StatsJson
        \<lparr>stats_totalProducts = 5, stats_inStock = 4, stats_outOfStock = 1,
         stats_categories = [(''electronics'', CNum 3), (''kitchen'', CNum 1), (''furniture'', CNum 1)],
         stats_averagePrice = 510, stats_min = 50, stats_max = 1200\<rparr>\<rparr>"
proof -
  let ?rs = "[(''3b241101-e2bb-4255-8caf-4136c566a962'',
       req PostProduct (Some ''demo-api-key-123'')
         (Some (gaming_mouse\<lparr>body_category := JStr ''constructor''\<rparr>)) no_query)]"
  have 1: "serve products ?rs =
     products @
       [\<lparr>id_p = ''3b241101-e2bb-4255-8caf-4136c566a962'', name = ''Gaming Mouse'',
         description = ''High-precision gaming mouse with RGB lighting'', price = 75,
         category = ''constructor'', inStock = True\<rparr>]"
    by code_simp
  have 2: "products_stats (serve products ?rs) =
     \<lparr>status = 200,
      json = StatsJson
        \<lparr>stats_totalProducts = 6, stats_inStock = 5, stats_outOfStock = 1,
         stats_categories =
           [(''electronics'', CNum 3), (''kitchen'', CNum 1), (''furniture'', CNum 1),
            (''constructor'', CStr ''function Object() { [native code] }1'')],
         stats_averagePrice = 875 / 2, stats_min = 50, stats_max = 1200\<rparr>\<rparr>"
    by code_simp
  from 1 2 stats_seed_data show ?thesis by simp
qed




text \<open>
  Claim C10. A create answered 201 appends, and an update answered 200 puts in place,
  a product that the response returns and whose name, description and category are the
  strings of the parsed body without their leading and trailing white space, and whose
  price and stock flag are the supplied ones. A create or update whose name is white
  space only leaves the store as it was; with the secret, its answer is the validator's
  error on the name.
\<close>

theorem accepted_strings_trimmed:
  "(route r = PostProduct \<and> status (fst (handle u r ps)) = 201 \<longrightarrow>
      (\<exists>b p. req_body r = Some b \<and>
           handle u r ps =
             (\<lparr>status = 201, json = MessageJson ''Product created successfully'' p\<rparr>, ps @ [p]) \<and>
           stores_trimmed b p)) \<and>
   (route r' = PutProduct i \<and> status (fst (handle u r' ps)) = 200 \<longrightarrow>
      (\<exists>b k p. req_body r' = Some b \<and> k < length ps \<and> id_p (ps ! k) = i \<and>
           handle u r' ps =
             (res_json (MessageJson ''Product updated successfully'' p), ps[k := p]) \<and>
           stores_trimmed b p)) \<and>
   ((route w = PostProduct \<or> route w = PutProduct j) \<and> req_body w = Some bw \<and>
      body_name bw = JStr n \<and> (\<forall>c \<in> set n. is_ws c) \<longrightarrow>
      snd (handle u w ps) = ps \<and>
      (x_api_key w = Some ''demo-api-key-123'' \<longrightarrow>
         fst (handle u w ps) = errorHandler (ValidationError name_message)))"
proof (intro conjI impI)
  assume "route r = PostProduct \<and> status (fst (handle u r ps)) = 201"
  then have "route r = PostProduct" "status (fst (handle u r ps)) = 201" by simp_all
  then show "\<exists>b p. req_body r = Some b \<and>
           handle u r ps =
             (\<lparr>status = 201, json = MessageJson ''Product created successfully'' p\<rparr>, ps @ [p]) \<and>
           stores_trimmed b p"
    by (rule handle_post_created) blast
next
  assume "route r' = PutProduct i \<and> status (fst (handle u r' ps)) = 200"
  then have "route r' = PutProduct i" "status (fst (handle u r' ps)) = 200" by simp_all
  then show "\<exists>b k p. req_body r' = Some b \<and> k < length ps \<and> id_p (ps ! k) = i \<and>
           handle u r' ps =
             (res_json (MessageJson ''Product updated successfully'' p), ps[k := p]) \<and>
           stores_trimmed b p"
    by (rule handle_put_updated) blast
next
  assume a: "(route w = PostProduct \<or> route w = PutProduct j) \<and> req_body w = Some bw \<and>
      body_name bw = JStr n \<and> (\<forall>c \<in> set n. is_ws c)"
  then show "snd (handle u w ps) = ps"
    using handle_blank_name(1) [of w j bw n u ps] by blast
  assume "x_api_key w = Some ''demo-api-key-123''"
  with a show "fst (handle u w ps) = errorHandler (ValidationError name_message)"
    using handle_blank_name(2) [of w j bw n u ps] by (simp add: api_key_def)
qed

theorem accepted_strings_trimmed_witness:
  "route (req PostProduct (Some ''demo-api-key-123'') (Some padded_mouse) no_query) = PostProduct \<and>
   status (fst (handle ''3b241101-e2bb-4255-8caf-4136c566a962''
      (req PostProduct (Some ''demo-api-key-123'') (Some padded_mouse) no_query) products)) = 201 \<and>
   (\<exists>p. snd (handle ''3b241101-e2bb-4255-8caf-4136c566a962''
      (req PostProduct (Some ''demo-api-key-123'') (Some padded_mouse) no_query) products) = products @ [p] \<and>
      stores_trimmed padded_mouse p) \<and>
   body_name padded_mouse = JStr (CHR 0xA0 # '' Gaming Mouse '') \<and>
   name (last (snd (handle ''3b241101-e2bb-4255-8caf-4136c566a962''
      (req PostProduct (Some ''demo-api-key-123'') (Some padded_mouse) no_query) products))) = ''Gaming Mouse'' \<and>
   route (req (PutProduct ''3'') (Some ''demo-api-key-123'') (Some padded_mouse) no_query) = PutProduct ''3'' \<and>
   status (fst (handle ''3b241101-e2bb-4255-8caf-4136c566a962''
      (req (PutProduct ''3'') (Some ''demo-api-key-123'') (Some padded_mouse) no_query) products)) = 200 \<and>
   (\<exists>k p. snd (handle ''3b241101-e2bb-4255-8caf-4136c566a962''
      (req (PutProduct ''3'') (Some ''demo-api-key-123'') (Some padded_mouse) no_query) products) = products[k := p] \<and>
      stores_trimmed padded_mouse p) \<and>
   route (req PostProduct (Some ''demo-api-key-123'') (Some blank_mouse) no_query) = PostProduct \<and>
   body_name blank_mouse = JStr ''   '' \<and>
   list_all is_ws ''   '' \<and>
   handle ''3b241101-e2bb-4255-8caf-4136c566a962''
      (req PostProduct (Some ''demo-api-key-123'') (Some blank_mouse) no_query) products =
     (errorHandler (ValidationError name_message), products)"
proof -
  let ?u = "''3b241101-e2bb-4255-8caf-4136c566a962''"
  let ?r = "req PostProduct (Some ''demo-api-key-123'') (Some padded_mouse) no_query"
  let ?r' = "req (PutProduct ''3'') (Some ''demo-api-key-123'') (Some padded_mouse) no_query"
  let ?w = "req PostProduct (Some ''demo-api-key-123'') (Some blank_mouse) no_query"
  have r: "route ?r = PostProduct" "req_body ?r = Some padded_mouse" by (simp_all add: req_def)
  have r': "route ?r' = PutProduct ''3''" "req_body ?r' = Some padded_mouse"
    by (simp_all add: req_def)
  have w: "route ?w = PostProduct" "req_body ?w = Some blank_mouse"
    "body_name blank_mouse = JStr ''   ''" "x_api_key ?w = Some ''demo-api-key-123''"
    by (simp_all add: req_def blank_mouse_def)
  have pn: "body_name padded_mouse = JStr (CHR 0xA0 # '' Gaming Mouse '')"
    by (simp add: padded_mouse_def)
  have ws: "list_all is_ws ''   ''" by (simp add: is_ws_def)
  then have ws': "\<forall>c \<in> set ''   ''. is_ws c" by (simp only: list_all_iff)
  have s1: "status (fst (handle ?u ?r products)) = 201" by code_simp
  have s2: "status (fst (handle ?u ?r' products)) = 200" by code_simp
  have n1: "name (last (snd (handle ?u ?r products))) = ''Gaming Mouse''" by code_simp
  note t = accepted_strings_trimmed [where r = ?r and u = ?u and ps = products and r' = ?r'
      and i = "''3''" and w = ?w and j = "[]" and bw = blank_mouse and n = "''   ''"]
  from t r(1) s1 have "\<exists>b p. req_body ?r = Some b \<and> handle ?u ?r products =
        (\<lparr>status = 201, json = MessageJson ''Product created successfully'' p\<rparr>, products @ [p]) \<and>
        stores_trimmed b p"
    by blast
  then obtain b p where "req_body ?r = Some b" "snd (handle ?u ?r products) = products @ [p]"
      "stores_trimmed b p"
    by force
  with r(2) have c1: "\<exists>p. snd (handle ?u ?r products) = products @ [p] \<and> stores_trimmed padded_mouse p"
    by auto
  from t r'(1) s2 have "\<exists>b k p. req_body ?r' = Some b \<and> k < length products \<and>
        id_p (products ! k) = ''3'' \<and>
        handle ?u ?r' products =
          (res_json (MessageJson ''Product updated successfully'' p), products[k := p]) \<and>
        stores_trimmed b p"
    by blast
  then obtain b' k q where "req_body ?r' = Some b'" "snd (handle ?u ?r' products) = products[k := q]"
      "stores_trimmed b' q"
    by force
  with r'(2) have c2: "\<exists>k p. snd (handle ?u ?r' products) = products[k := p] \<and> stores_trimmed padded_mouse p"
    by auto
  from t w ws' have c3: "handle ?u ?w products = (errorHandler (ValidationError name_message), products)"
    by (metis prod.collapse)
  from r(1) r'(1) w(1,3) pn ws s1 s2 n1 c1 c2 c3 show ?thesis by blast
qed

end
